theory Spec2Isabelle
  imports Complex_Main "HOL-Library.Word"
begin

section \<open>JavaScript values\<close>

text \<open>
  A JavaScript string is a sequence of UTF-16 code units; \<open>length\<close> is its
  \<^verbatim>\<open>.length\<close>.  \<open>ascii\<close> embeds an ASCII literal.
\<close>

type_synonym jsstring = "16 word list"

definition ascii :: "string \<Rightarrow> jsstring" where
  "ascii s = map (\<lambda>c. of_nat (of_char c)) s"

text \<open>
  A JavaScript number is modelled with its special values written out and with exact real
  arithmetic on the finite ones: rounding, overflow of a finite result and the sign of
  zero are not modelled (every zero divisor met by the handler is \<open>+0\<close>).
\<close>

datatype jsnum = NaN | NInf | Fin real | PInf

definition isNaN :: "jsnum \<Rightarrow> bool" where
  "isNaN v = (v = NaN)"

fun jneg :: "jsnum \<Rightarrow> jsnum" where
  "jneg NaN = NaN"
| "jneg NInf = PInf"
| "jneg (Fin a) = Fin (- a)"
| "jneg PInf = NInf"

text \<open>\<^verbatim>\<open>a + b\<close>\<close>

fun jadd :: "jsnum \<Rightarrow> jsnum \<Rightarrow> jsnum" where
  "jadd NaN _ = NaN"
| "jadd _ NaN = NaN"
| "jadd (Fin a) (Fin b) = Fin (a + b)"
| "jadd PInf NInf = NaN"
| "jadd NInf PInf = NaN"
| "jadd PInf _ = PInf"
| "jadd _ PInf = PInf"
| "jadd NInf _ = NInf"
| "jadd _ NInf = NInf"

text \<open>\<^verbatim>\<open>a - b\<close>\<close>

definition jsub :: "jsnum \<Rightarrow> jsnum \<Rightarrow> jsnum" where
  "jsub a b = jadd a (jneg b)"

text \<open>\<^verbatim>\<open>a / b\<close>, a zero divisor being \<open>+0\<close>.\<close>

fun jdiv :: "jsnum \<Rightarrow> jsnum \<Rightarrow> jsnum" where
  "jdiv NaN _ = NaN"
| "jdiv _ NaN = NaN"
| "jdiv (Fin a) (Fin b) =
     (if b \<noteq> 0 then Fin (a / b)
      else if a = 0 then NaN else if 0 < a then PInf else NInf)"
| "jdiv (Fin a) _ = Fin 0"
| "jdiv PInf (Fin b) = (if 0 \<le> b then PInf else NInf)"
| "jdiv NInf (Fin b) = (if 0 \<le> b then NInf else PInf)"
| "jdiv _ _ = NaN"

text \<open>\<^verbatim>\<open>a * b\<close>\<close>

fun jmul :: "jsnum \<Rightarrow> jsnum \<Rightarrow> jsnum" where
  "jmul NaN _ = NaN"
| "jmul _ NaN = NaN"
| "jmul (Fin a) (Fin b) = Fin (a * b)"
| "jmul (Fin a) PInf = (if a = 0 then NaN else if 0 < a then PInf else NInf)"
| "jmul (Fin a) NInf = (if a = 0 then NaN else if 0 < a then NInf else PInf)"
| "jmul PInf (Fin b) = (if b = 0 then NaN else if 0 < b then PInf else NInf)"
| "jmul NInf (Fin b) = (if b = 0 then NaN else if 0 < b then NInf else PInf)"
| "jmul PInf PInf = PInf"
| "jmul NInf NInf = PInf"
| "jmul _ _ = NInf"

text \<open>\<^verbatim>\<open>Math.pow(x, n)\<close> for a natural exponent.\<close>

fun Math_pow :: "jsnum \<Rightarrow> nat \<Rightarrow> jsnum" where
  "Math_pow x 0 = Fin 1"
| "Math_pow NaN n = NaN"
| "Math_pow (Fin a) n = Fin (a ^ n)"
| "Math_pow PInf n = PInf"
| "Math_pow NInf n = (if even n then PInf else NInf)"

fun Math_sqrt :: "jsnum \<Rightarrow> jsnum" where
  "Math_sqrt (Fin a) = (if a < 0 then NaN else Fin (sqrt a))"
| "Math_sqrt PInf = PInf"
| "Math_sqrt _ = NaN"

fun Math_floor :: "jsnum \<Rightarrow> jsnum" where
  "Math_floor (Fin a) = Fin (of_int \<lfloor>a\<rfloor>)"
| "Math_floor v = v"

text \<open>\<^verbatim>\<open>a < b\<close> on numbers: false as soon as one side is \<open>NaN\<close>.\<close>

fun jless :: "jsnum \<Rightarrow> jsnum \<Rightarrow> bool" where
  "jless NaN _ = False"
| "jless _ NaN = False"
| "jless (Fin a) (Fin b) = (a < b)"
| "jless NInf NInf = False"
| "jless NInf _ = True"
| "jless PInf _ = False"
| "jless (Fin a) PInf = True"
| "jless (Fin a) NInf = False"

text \<open>
  \<^verbatim>\<open>Math.min(a, b)\<close> and \<^verbatim>\<open>Math.max(a, b)\<close>: \<open>NaN\<close> as soon as one argument is;
  \<^verbatim>\<open>Math.min(...values)\<close> starts from \<open>+Infinity\<close>, \<^verbatim>\<open>Math.max(...values)\<close>
  from \<open>-Infinity\<close>.
\<close>

definition Math_min2 :: "jsnum \<Rightarrow> jsnum \<Rightarrow> jsnum" where
  "Math_min2 a b = (if isNaN a \<or> isNaN b then NaN else if jless b a then b else a)"

definition Math_max2 :: "jsnum \<Rightarrow> jsnum \<Rightarrow> jsnum" where
  "Math_max2 a b = (if isNaN a \<or> isNaN b then NaN else if jless a b then b else a)"

definition Math_min :: "jsnum list \<Rightarrow> jsnum" where
  "Math_min vs = foldl Math_min2 PInf vs"

definition Math_max :: "jsnum list \<Rightarrow> jsnum" where
  "Math_max vs = foldl Math_max2 NInf vs"

text \<open>
  \<^verbatim>\<open>[...values].sort((a, b) => a - b)\<close>.  The comparator's result is positive when
  \<open>a\<close> goes after \<open>b\<close>; a result that is zero or \<open>NaN\<close> leaves the two in their
  order.  The sort is stable, and a stable insertion sort computes its result.
\<close>

definition positive :: "jsnum \<Rightarrow> bool" where
  "positive d = jless (Fin 0) d"

fun insort_by :: "(jsnum \<Rightarrow> jsnum \<Rightarrow> jsnum) \<Rightarrow> jsnum \<Rightarrow> jsnum list \<Rightarrow> jsnum list" where
  "insort_by cmp x [] = [x]"
| "insort_by cmp x (y # ys) =
     (if positive (cmp x y) then y # insort_by cmp x ys else x # y # ys)"

definition sort_by :: "(jsnum \<Rightarrow> jsnum \<Rightarrow> jsnum) \<Rightarrow> jsnum list \<Rightarrow> jsnum list" where
  "sort_by cmp xs = foldr (insort_by cmp) xs []"

text \<open>
  An array read \<^verbatim>\<open>xs[i]\<close> whose result goes into arithmetic: out of range it is
  \<^verbatim>\<open>undefined\<close>, which arithmetic turns into \<open>NaN\<close>.
\<close>

definition elem_at :: "jsnum list \<Rightarrow> int \<Rightarrow> jsnum" where
  "elem_at xs i = (if 0 \<le> i \<and> nat i < length xs then xs ! nat i else NaN)"

section \<open>Tool requests and their validation\<close>

text \<open>
  The arguments of a tool call are JSON.  An object lists its members in order;
  \<open>map_of\<close> reads a member, \<open>None\<close> being \<^verbatim>\<open>undefined\<close>.
\<close>

datatype json =
    JNull
  | JBool bool
  | JNumber jsnum
  | JString jsstring
  | JArray "json list"
  | JObject "(jsstring \<times> json) list"

record ToolRequest =
  tool_name :: jsstring
  arguments :: "(jsstring \<times> json) list"

datatype ZodParsedType =
  zt_undefined | zt_null | zt_boolean | zt_number | zt_nan | zt_string | zt_array | zt_object

datatype path_elem = Key jsstring | Index nat

datatype ZodIssueCode =
    invalid_type (expected: jsstring) (received: ZodParsedType)
  | invalid_enum_value (options: "jsstring list") (received_value: jsstring)

datatype ZodIssue = ZodIssue (code: ZodIssueCode) (path: "path_elem list")

text \<open>
  What a handler throws: a \<^verbatim>\<open>ZodError\<close> with its issues, an \<^verbatim>\<open>Error\<close> with its
  message (also the rejection of an external service), or the \<^verbatim>\<open>TypeError\<close> of the
  language.
\<close>

datatype error =
    ZodError "ZodIssue list"
  | Error jsstring
  | TypeError jsstring

text \<open>
  Modelled from the spec: the parse of the schema library (zod), which the handler imports
  and whose code is not part of the sources.  A schema checks the presence and the type of
  a value and reports each violation as an issue carrying the path of the offending field;
  an object schema checks every field of its shape and collects the issues; an optional
  field may be absent; a default stands in for an absent value only.
\<close>

fun getParsedType :: "json option \<Rightarrow> ZodParsedType" where
  "getParsedType None = zt_undefined"
| "getParsedType (Some JNull) = zt_null"
| "getParsedType (Some (JBool b)) = zt_boolean"
| "getParsedType (Some (JNumber n)) = (if isNaN n then zt_nan else zt_number)"
| "getParsedType (Some (JString s)) = zt_string"
| "getParsedType (Some (JArray xs)) = zt_array"
| "getParsedType (Some (JObject kvs)) = zt_object"

type_synonym 'a parser = "path_elem list \<Rightarrow> json option \<Rightarrow> ZodIssue list + 'a"

definition issues_of :: "ZodIssue list + 'a \<Rightarrow> ZodIssue list" where
  "issues_of r = (case r of Inl is \<Rightarrow> is | Inr v \<Rightarrow> [])"

text \<open>Modelled from the spec: \<^verbatim>\<open>z.string()\<close>\<close>

definition z_string :: "jsstring parser" where
  "z_string p v =
     (case v of
        Some (JString s) \<Rightarrow> Inr s
      | _ \<Rightarrow> Inl [ZodIssue (invalid_type (ascii ''string'') (getParsedType v)) p])"

text \<open>Modelled from the spec: \<^verbatim>\<open>.optional()\<close>\<close>

definition z_optional :: "'a parser \<Rightarrow> 'a option parser" where
  "z_optional f p v =
     (case v of
        None \<Rightarrow> Inr None
      | Some x \<Rightarrow> (case f p v of Inl is \<Rightarrow> Inl is | Inr a \<Rightarrow> Inr (Some a)))"

text \<open>Modelled from the spec: \<^verbatim>\<open>.optional().default(d)\<close>\<close>

definition z_default :: "'a \<Rightarrow> 'a parser \<Rightarrow> 'a parser" where
  "z_default d f p v = (case v of None \<Rightarrow> Inr d | Some x \<Rightarrow> f p v)"

text \<open>
  Modelled from the spec: the text an issue gives for the values an enum expects, each in
  quotes, joined by a bar.
\<close>

definition joinValues :: "jsstring list \<Rightarrow> jsstring" where
  "joinValues vs =
     foldr (\<lambda>v acc. [0x27] @ v @ [0x27] @ (if acc = [] then [] else ascii '' | '' @ acc)) vs []"

text \<open>Modelled from the spec: \<^verbatim>\<open>z.enum([...])\<close>\<close>

definition z_enum :: "jsstring list \<Rightarrow> jsstring parser" where
  "z_enum opts p v =
     (case v of
        Some (JString s) \<Rightarrow>
          if s \<in> set opts then Inr s else Inl [ZodIssue (invalid_enum_value opts s) p]
      | _ \<Rightarrow> Inl [ZodIssue (invalid_type (joinValues opts) (getParsedType v)) p])"

text \<open>Modelled from the spec: \<^verbatim>\<open>z.array(element)\<close>, the issues of all elements collected.\<close>

fun z_elements :: "'a parser \<Rightarrow> path_elem list \<Rightarrow> nat \<Rightarrow> json list \<Rightarrow> ZodIssue list + 'a list" where
  "z_elements f p i [] = Inr []"
| "z_elements f p i (x # xs) =
     (case (f (p @ [Index i]) (Some x), z_elements f p (Suc i) xs) of
        (Inr a, Inr as) \<Rightarrow> Inr (a # as)
      | (r, rs) \<Rightarrow> Inl (issues_of r @ issues_of rs))"

definition z_array :: "'a parser \<Rightarrow> 'a list parser" where
  "z_array f p v =
     (case v of
        Some (JArray xs) \<Rightarrow> z_elements f p 0 xs
      | _ \<Rightarrow> Inl [ZodIssue (invalid_type (ascii ''array'') (getParsedType v)) p])"

subsection \<open>The three schemas\<close>

record GenerateThinkingArgs =
  g_prompt :: jsstring
  g_outputDir :: "jsstring option"

record image =
  image_name :: jsstring
  image_data :: jsstring

record SendEmailArgs =
  e_to :: jsstring
  e_subjectPrompt :: jsstring
  e_text :: jsstring
  e_html :: "jsstring option"
  e_images :: "image list"

record AnalyzeDataArgs =
  a_fileData :: jsstring
  a_fileName :: jsstring
  a_analysisType :: jsstring
  a_outputDir :: "jsstring option"

text \<open>
  \<^verbatim>\<open>z.object({prompt: z.string(), outputDir: z.string().optional()})\<close>; members the
  shape does not name are dropped.
\<close>

definition GenerateThinkingSchema :: "(jsstring \<times> json) list \<Rightarrow> error + GenerateThinkingArgs" where
  "GenerateThinkingSchema args =
     (let prompt = z_string [Key (ascii ''prompt'')] (map_of args (ascii ''prompt''));
          outputDir = z_optional z_string [Key (ascii ''outputDir'')] (map_of args (ascii ''outputDir''))
      in case (prompt, outputDir) of
           (Inr p, Inr d) \<Rightarrow> Inr \<lparr> g_prompt = p, g_outputDir = d \<rparr>
         | _ \<Rightarrow> Inl (ZodError (issues_of prompt @ issues_of outputDir)))"

text \<open>\<^verbatim>\<open>z.object({name: z.string(), data: z.string()})\<close>, an element of \<^verbatim>\<open>images\<close>.\<close>

definition image_schema :: "image parser" where
  "image_schema p v =
     (case v of
        Some (JObject kvs) \<Rightarrow>
          (let name = z_string (p @ [Key (ascii ''name'')]) (map_of kvs (ascii ''name''));
               data = z_string (p @ [Key (ascii ''data'')]) (map_of kvs (ascii ''data''))
           in case (name, data) of
                (Inr n, Inr d) \<Rightarrow> Inr \<lparr> image_name = n, image_data = d \<rparr>
              | _ \<Rightarrow> Inl (issues_of name @ issues_of data))
      | _ \<Rightarrow> Inl [ZodIssue (invalid_type (ascii ''object'') (getParsedType v)) p])"

definition SendEmailSchema :: "(jsstring \<times> json) list \<Rightarrow> error + SendEmailArgs" where
  "SendEmailSchema args =
     (let to = z_string [Key (ascii ''to'')] (map_of args (ascii ''to''));
          subjectPrompt = z_string [Key (ascii ''subjectPrompt'')] (map_of args (ascii ''subjectPrompt''));
          txt = z_string [Key (ascii ''text'')] (map_of args (ascii ''text''));
          html = z_optional z_string [Key (ascii ''html'')] (map_of args (ascii ''html''));
          images = z_default [] (z_array image_schema) [Key (ascii ''images'')]
                     (map_of args (ascii ''images''))
      in case (to, subjectPrompt, txt, html, images) of
           (Inr t, Inr s, Inr x, Inr h, Inr i) \<Rightarrow>
             Inr \<lparr> e_to = t, e_subjectPrompt = s, e_text = x, e_html = h, e_images = i \<rparr>
         | _ \<Rightarrow> Inl (ZodError (issues_of to @ issues_of subjectPrompt @ issues_of txt
                                  @ issues_of html @ issues_of images)))"

definition AnalyzeDataSchema :: "(jsstring \<times> json) list \<Rightarrow> error + AnalyzeDataArgs" where
  "AnalyzeDataSchema args =
     (let fileData = z_string [Key (ascii ''fileData'')] (map_of args (ascii ''fileData''));
          fileName = z_string [Key (ascii ''fileName'')] (map_of args (ascii ''fileName''));
          analysisType = z_enum [ascii ''basic'', ascii ''detailed'']
                           [Key (ascii ''analysisType'')] (map_of args (ascii ''analysisType''));
          outputDir = z_optional z_string [Key (ascii ''outputDir'')] (map_of args (ascii ''outputDir''))
      in case (fileData, fileName, analysisType, outputDir) of
           (Inr d, Inr n, Inr t, Inr od) \<Rightarrow>
             Inr \<lparr> a_fileData = d, a_fileName = n, a_analysisType = t, a_outputDir = od \<rparr>
         | _ \<Rightarrow> Inl (ZodError (issues_of fileData @ issues_of fileName @ issues_of analysisType
                                  @ issues_of outputDir)))"

subsection \<open>The fields the specification recognises\<close>

text \<open>
  The table of the specification: per tool, each recognised field with its kind and
  whether it is required.  A field is violated when it is required and missing, or present
  with a value that is not of its kind.
\<close>

datatype field_kind = FString | FEnum "jsstring list" | FImages

fun is_string :: "json \<Rightarrow> bool" where
  "is_string (JString s) = True"
| "is_string _ = False"

fun is_image :: "json \<Rightarrow> bool" where
  "is_image (JObject kvs) =
     ((case map_of kvs (ascii ''name'') of Some v \<Rightarrow> is_string v | None \<Rightarrow> False) \<and>
      (case map_of kvs (ascii ''data'') of Some v \<Rightarrow> is_string v | None \<Rightarrow> False))"
| "is_image _ = False"

fun has_kind :: "field_kind \<Rightarrow> json \<Rightarrow> bool" where
  "has_kind FString v = is_string v"
| "has_kind (FEnum opts) v = (case v of JString s \<Rightarrow> s \<in> set opts | _ \<Rightarrow> False)"
| "has_kind FImages v = (case v of JArray xs \<Rightarrow> list_all is_image xs | _ \<Rightarrow> False)"

definition recognized_fields :: "jsstring \<Rightarrow> (jsstring \<times> field_kind \<times> bool) list" where
  "recognized_fields tool =
     (if tool = ascii ''generate-thinking'' then
        [(ascii ''prompt'', FString, True), (ascii ''outputDir'', FString, False)]
      else if tool = ascii ''send-email'' then
        [(ascii ''to'', FString, True), (ascii ''subjectPrompt'', FString, True),
         (ascii ''text'', FString, True), (ascii ''html'', FString, False),
         (ascii ''images'', FImages, False)]
      else if tool = ascii ''analyze-data'' then
        [(ascii ''fileData'', FString, True), (ascii ''fileName'', FString, True),
         (ascii ''analysisType'', FEnum [ascii ''basic'', ascii ''detailed''], True),
         (ascii ''outputDir'', FString, False)]
      else [])"

definition violated :: "(jsstring \<times> json) list \<Rightarrow> jsstring \<times> field_kind \<times> bool \<Rightarrow> bool" where
  "violated args fld =
     (case fld of (f, kind, required) \<Rightarrow>
        (case map_of args f of None \<Rightarrow> required | Some v \<Rightarrow> \<not> has_kind kind v))"

section \<open>The table and its statistics (types.ts, the analyze-data handler)\<close>

text \<open>
  \<^verbatim>\<open>DataRow\<close>: a value is a string or a number; a row lists its keys in the order of
  \<^verbatim>\<open>Object.keys\<close>; \<^verbatim>\<open>row[col]\<close> is \<open>map_of row col\<close>, \<open>None\<close> being
  \<^verbatim>\<open>undefined\<close>.
\<close>

datatype cell = Num jsnum | Str jsstring

type_synonym DataRow = "(jsstring \<times> cell) list"

record NumericStats =
  mean :: jsnum
  median :: jsnum
  std :: jsnum
  min_stat :: jsnum
  max_stat :: jsnum

record Statistics =
  rowCount :: nat
  columnCount :: nat
  numericStats :: "jsstring \<rightharpoonup> NumericStats"
  categoricalStats :: "jsstring \<rightharpoonup> (jsstring \<rightharpoonup> nat)"

text \<open>
  \<^verbatim>\<open>Number(row[col])\<close>.  The conversion of a string to a number is the language's
  (\<open>s2n\<close>); \<^verbatim>\<open>undefined\<close> converts to \<open>NaN\<close>.
\<close>

definition Number :: "(jsstring \<Rightarrow> jsnum) \<Rightarrow> cell option \<Rightarrow> jsnum" where
  "Number s2n v = (case v of None \<Rightarrow> NaN | Some (Num n) \<Rightarrow> n | Some (Str s) \<Rightarrow> s2n s)"

text \<open>\<^verbatim>\<open>typeof v === 'number'\<close>\<close>

definition is_number :: "cell option \<Rightarrow> bool" where
  "is_number v = (case v of Some (Num n) \<Rightarrow> True | _ \<Rightarrow> False)"

text \<open>\<^verbatim>\<open>Object.keys(data[0]).filter(col => typeof data[0][col] === 'number')\<close>\<close>

definition numericColumns :: "DataRow \<Rightarrow> jsstring list" where
  "numericColumns row0 = filter (\<lambda>col. is_number (map_of row0 col)) (map fst row0)"

text \<open>\<^verbatim>\<open>data.map(row => Number(row[col])).filter(val => !isNaN(val))\<close>\<close>

definition col_values :: "(jsstring \<Rightarrow> jsnum) \<Rightarrow> DataRow list \<Rightarrow> jsstring \<Rightarrow> jsnum list" where
  "col_values s2n data col =
     filter (\<lambda>val. \<not> isNaN val) (map (\<lambda>row. Number s2n (map_of row col)) data)"

definition sorted_values :: "jsnum list \<Rightarrow> jsnum list" where
  "sorted_values vs = sort_by (\<lambda>a b. jsub a b) vs"

definition mean_of :: "jsnum list \<Rightarrow> jsnum" where
  "mean_of vs = jdiv (foldl (\<lambda>a b. jadd a b) (Fin 0) vs) (Fin (real (length vs)))"

definition median_of :: "jsnum list \<Rightarrow> jsnum" where
  "median_of srt =
     (if length srt mod 2 = 0
      then jdiv (jadd (elem_at srt (int (length srt) div 2 - 1)) (elem_at srt (int (length srt) div 2)))
             (Fin 2)
      else elem_at srt (int (length srt div 2)))"

definition variance_of :: "jsnum list \<Rightarrow> jsnum" where
  "variance_of vs =
     jdiv (foldl (\<lambda>a b. jadd a (Math_pow (jsub b (mean_of vs)) 2)) (Fin 0) vs)
       (Fin (real (length vs)))"

definition numeric_stats :: "jsnum list \<Rightarrow> NumericStats" where
  "numeric_stats vs =
     \<lparr> mean = mean_of vs,
       median = median_of (sorted_values vs),
       std = Math_sqrt (variance_of vs),
       min_stat = Math_min vs,
       max_stat = Math_max vs \<rparr>"

text \<open>
  The statistics object after the loop over the numeric columns.  \<^verbatim>\<open>data[0]\<close> of a
  table with no row is \<^verbatim>\<open>undefined\<close>, and \<^verbatim>\<open>Object.keys(undefined)\<close> throws a
  \<^verbatim>\<open>TypeError\<close>.
\<close>

definition statistics :: "(jsstring \<Rightarrow> jsnum) \<Rightarrow> DataRow list \<Rightarrow> error + Statistics" where
  "statistics s2n data =
     (case data of
        [] \<Rightarrow> Inl (TypeError (ascii ''Cannot convert undefined or null to object''))
      | row0 # rest \<Rightarrow>
          Inr \<lparr> rowCount = length data,
                columnCount = length (map fst row0),
                numericStats =
                  foldl (\<lambda>m col. m(col \<mapsto> numeric_stats (col_values s2n data col))) Map.empty
                    (numericColumns row0),
                categoricalStats = Map.empty \<rparr>)"

subsection \<open>Histogram binning\<close>

definition binCount :: "jsnum list \<Rightarrow> nat" where
  "binCount vs = nat (min 20 \<lfloor>sqrt (real (length vs))\<rfloor>)"

definition binWidth :: "jsnum list \<Rightarrow> jsnum" where
  "binWidth vs = jdiv (jsub (Math_max vs) (Math_min vs)) (Fin (real (binCount vs)))"

text \<open>\<^verbatim>\<open>Math.min(binCount - 1, Math.floor((val - min) / binWidth))\<close>\<close>

definition binIndex :: "jsnum list \<Rightarrow> jsnum \<Rightarrow> jsnum" where
  "binIndex vs val =
     Math_min2 (Fin (real (binCount vs) - 1))
       (Math_floor (jdiv (jsub val (Math_min vs)) (binWidth vs)))"

text \<open>\<^verbatim>\<open>Array.from({ length: binCount }, (_, i) => min + i * binWidth)\<close>\<close>

definition bins :: "jsnum list \<Rightarrow> jsnum list" where
  "bins vs = map (\<lambda>i. jadd (Math_min vs) (jmul (Fin (real i)) (binWidth vs))) [0..<binCount vs]"

text \<open>
  \<^verbatim>\<open>counts[binIndex]++\<close> on an array of \<open>binCount\<close> zeros.  An index that is \<open>NaN\<close>
  or negative names a property that is no element of the array; the clamp keeps every
  index below \<open>binCount\<close>.
\<close>

definition increment :: "nat list \<Rightarrow> jsnum \<Rightarrow> nat list" where
  "increment cs idx =
     (case idx of
        Fin r \<Rightarrow>
          if 0 \<le> r \<and> r = of_int \<lfloor>r\<rfloor> \<and> nat \<lfloor>r\<rfloor> < length cs
          then cs[nat \<lfloor>r\<rfloor> := Suc (cs ! nat \<lfloor>r\<rfloor>)] else cs
      | _ \<Rightarrow> cs)"

definition counts :: "jsnum list \<Rightarrow> nat list" where
  "counts vs = foldl (\<lambda>cs val. increment cs (binIndex vs val)) (replicate (binCount vs) 0) vs"

subsection \<open>The formulas of the specification\<close>

text \<open>
  The sum of a sequence, and a sequence in ascending order, as the specification words the
  mean, the variance and the median.
\<close>

definition js_sum :: "jsnum list \<Rightarrow> jsnum" where
  "js_sum vs = foldr jadd vs (Fin 0)"

definition ascending :: "jsnum list \<Rightarrow> bool" where
  "ascending vs = sorted_wrt (\<lambda>a b. \<not> jless b a) vs"

section \<open>Strings: the clean-up of a generated subject\<close>

text \<open>The class \<^verbatim>\<open>\s\<close> of a regular expression, which is also what \<^verbatim>\<open>trim\<close> removes.\<close>

definition is_space :: "16 word \<Rightarrow> bool" where
  "is_space c =
     (c \<in> {0x09, 0x0A, 0x0B, 0x0C, 0x0D, 0x20, 0xA0, 0x1680, 0x2028, 0x2029, 0x202F, 0x205F,
            0x3000, 0xFEFF}
      \<or> (0x2000 \<le> c \<and> c \<le> 0x200A))"

text \<open>The line terminators, which \<^verbatim>\<open>.\<close> does not match.\<close>

definition is_line_terminator :: "16 word \<Rightarrow> bool" where
  "is_line_terminator c = (c \<in> {0x0A, 0x0D, 0x2028, 0x2029})"

text \<open>
  \<^verbatim>\<open>.replace(/\*\*|\*|__|_/g, '')\<close>: at each position the alternatives are tried in
  their order and the match is dropped.
\<close>

fun remove_markers :: "jsstring \<Rightarrow> jsstring" where
  "remove_markers (a # b # cs) =
     (if a = 0x2A \<and> b = 0x2A then remove_markers cs
      else if a = 0x2A then remove_markers (b # cs)
      else if a = 0x5F \<and> b = 0x5F then remove_markers cs
      else if a = 0x5F then remove_markers (b # cs)
      else a # remove_markers (b # cs))"
| "remove_markers [a] = (if a = 0x2A \<or> a = 0x5F then [] else [a])"
| "remove_markers [] = []"

text \<open>
  \<^verbatim>\<open>.replace(/^(subject|subject line|email subject|title)(:|\s-)\s*/i, '')\<close>: one match,
  at the start of the string.  Under the flag \<^verbatim>\<open>i\<close> the letters of the pattern match in
  either case.  The alternatives are tried in their order, each followed by a colon or by
  a white space and a hyphen; the white space after the match goes with it.
\<close>

definition toUpper :: "16 word \<Rightarrow> 16 word" where
  "toUpper c = (if 0x61 \<le> c \<and> c \<le> 0x7A then c - 0x20 else c)"

definition matches_ci :: "jsstring \<Rightarrow> jsstring \<Rightarrow> bool" where
  "matches_ci pat s =
     (length pat \<le> length s \<and> map toUpper (take (length pat) s) = map toUpper pat)"

fun after_separator :: "jsstring \<Rightarrow> jsstring option" where
  "after_separator [] = None"
| "after_separator (c # cs) =
     (if c = 0x3A then Some cs
      else if is_space c then
        (case cs of [] \<Rightarrow> None | d # ds \<Rightarrow> if d = 0x2D then Some ds else None)
      else None)"

fun match_label :: "jsstring list \<Rightarrow> jsstring \<Rightarrow> jsstring option" where
  "match_label [] s = None"
| "match_label (l # ls) s =
     (if matches_ci l s then
        (case after_separator (drop (length l) s) of
           Some rest \<Rightarrow> Some rest
         | None \<Rightarrow> match_label ls s)
      else match_label ls s)"

definition remove_label :: "jsstring \<Rightarrow> jsstring" where
  "remove_label s =
     (case match_label
             [ascii ''subject'', ascii ''subject line'', ascii ''email subject'', ascii ''title''] s of
        Some rest \<Rightarrow> dropWhile is_space rest
      | None \<Rightarrow> s)"

text \<open>
  \<^verbatim>\<open>.replace(/^["'](.+)["']$/, '$1')\<close>: the whole string is a quote, at least one
  character none of which is a line terminator, and a quote; what is between stays.
\<close>

definition is_quote :: "16 word \<Rightarrow> bool" where
  "is_quote c = (c = 0x22 \<or> c = 0x27)"

definition unquote :: "jsstring \<Rightarrow> jsstring" where
  "unquote s =
     (if 3 \<le> length s \<and> is_quote (hd s) \<and> is_quote (last s)
         \<and> list_all (\<lambda>c. \<not> is_line_terminator c) (butlast (tl s))
      then butlast (tl s) else s)"

text \<open>\<^verbatim>\<open>.replace(/\n/g, ' ')\<close>\<close>

definition newlines_to_spaces :: "jsstring \<Rightarrow> jsstring" where
  "newlines_to_spaces s = map (\<lambda>c. if c = 0x0A then 0x20 else c) s"

text \<open>\<^verbatim>\<open>.replace(/\s+/g, ' ')\<close>: every maximal run of white space becomes one space.\<close>

function collapse_spaces :: "jsstring \<Rightarrow> jsstring" where
  "collapse_spaces [] = []"
| "collapse_spaces (c # cs) =
     (if is_space c then 0x20 # collapse_spaces (dropWhile is_space cs)
      else c # collapse_spaces cs)"
  by pat_completeness auto
termination
  by (relation "measure length") (auto simp: length_dropWhile_le less_Suc_eq_le)

text \<open>\<^verbatim>\<open>.trim()\<close>\<close>

definition trim :: "jsstring \<Rightarrow> jsstring" where
  "trim s = rev (dropWhile is_space (rev (dropWhile is_space s)))"

text \<open>The chain of calls that cleans a generated subject.\<close>

definition cleanup :: "jsstring \<Rightarrow> jsstring" where
  "cleanup s =
     trim (collapse_spaces (newlines_to_spaces (unquote (remove_label (remove_markers s)))))"

text \<open>\<^verbatim>\<open>s.includes(sub)\<close>\<close>

fun js_includes :: "jsstring \<Rightarrow> jsstring \<Rightarrow> bool" where
  "js_includes [] sub = (sub = [])"
| "js_includes (c # cs) sub = (take (length sub) (c # cs) = sub \<or> js_includes cs sub)"

text \<open>\<^verbatim>\<open>s.endsWith(suffix)\<close>\<close>

definition endsWith :: "jsstring \<Rightarrow> jsstring \<Rightarrow> bool" where
  "endsWith s suffix = (length suffix \<le> length s \<and> drop (length s - length suffix) s = suffix)"

text \<open>
  The test after the first clean-up: the subject is too long, too short, holds
  \<^verbatim>\<open>Option\<close> or holds \<^verbatim>\<open>**\<close>.
\<close>

definition needs_fallback :: "jsstring \<Rightarrow> bool" where
  "needs_fallback s =
     (70 < length s \<or> length s < 10 \<or> js_includes s (ascii ''Option'') \<or> js_includes s (ascii ''**''))"

text \<open>\<^verbatim>\<open>s.substring(0, 67) + '...'\<close> when the subject is longer than 70.\<close>

definition truncate_subject :: "jsstring \<Rightarrow> jsstring" where
  "truncate_subject s = (if 70 < length s then take 67 s @ ascii ''...'' else s)"

text \<open>The decimal digits of a natural number, as a template prints it.\<close>

function digits :: "nat \<Rightarrow> jsstring" where
  "digits n = (if n < 10 then [of_nat (48 + n)] else digits (n div 10) @ [of_nat (48 + n mod 10)])"
  by pat_completeness auto
termination
  by (relation "measure id") auto

declare digits.simps [simp del]

text \<open>\<^verbatim>\<open>s.split('\n')\<close>\<close>

fun split_lines :: "jsstring \<Rightarrow> jsstring list" where
  "split_lines [] = [[]]"
| "split_lines (c # cs) =
     (if c = 0x0A then [] # split_lines cs
      else (case split_lines cs of [] \<Rightarrow> [[c]] | l # ls \<Rightarrow> (c # l) # ls))"

text \<open>\<^verbatim>\<open>text.split('\n').map(line => `<p>${line}</p>`).join('')\<close>\<close>

definition paragraphs :: "jsstring \<Rightarrow> jsstring" where
  "paragraphs txt = concat (map (\<lambda>line. ascii ''<p>'' @ line @ ascii ''</p>'') (split_lines txt))"

text \<open>
  \<^verbatim>\<open>data.match(/^data:(.+);base64,(.+)$/)\<close>: both groups are not empty and hold no line
  terminator; the first group is greedy, so the separator is the last one that has text
  before and after it.
\<close>

fun split_last :: "jsstring \<Rightarrow> jsstring \<Rightarrow> jsstring \<Rightarrow> (jsstring \<times> jsstring) option" where
  "split_last sep pre [] = None"
| "split_last sep pre (c # cs) =
     (case split_last sep (pre @ [c]) cs of
        Some r \<Rightarrow> Some r
      | None \<Rightarrow>
          if pre \<noteq> [] \<and> take (length sep) (c # cs) = sep \<and> drop (length sep) (c # cs) \<noteq> []
          then Some (pre, drop (length sep) (c # cs)) else None)"

definition match_data_url :: "jsstring \<Rightarrow> (jsstring \<times> jsstring) option" where
  "match_data_url s =
     (if take 5 s = ascii ''data:'' \<and> list_all (\<lambda>c. \<not> is_line_terminator c) (drop 5 s)
      then split_last (ascii '';base64,'') [] (drop 5 s) else None)"

subsection \<open>The texts of the handlers\<close>

text \<open>The prompt of the first subject request.\<close>

definition enhancedPrompt :: "jsstring \<Rightarrow> jsstring" where
  \<open>enhancedPrompt subjectPrompt =
     ascii ''Create a single, professional email subject line (maximum 50-60 characters) for: '' @
     subjectPrompt @
     ascii ''. \<newline>'' @
     ascii ''        The subject should be direct, clear, and professional. \<newline>'' @
     ascii ''        Do not include numbering, asterisks, or formatting characters. \<newline>'' @
     ascii ''        Do not provide multiple options - just give me one perfect subject line.\<newline>'' @
     ascii ''        Do not include phrases like "Subject line:" or "Email subject:" in your response.''\<close>

text \<open>The prompt of the fallback subject request.\<close>

definition fallbackPrompt :: "jsstring \<Rightarrow> jsstring" where
  \<open>fallbackPrompt subjectPrompt =
     ascii ''Create a brief, professional email subject line (30-50 characters only) about: '' @
     subjectPrompt @
     ascii ''. \<newline>'' @
     ascii ''          Just return the subject line text alone with no formatting or explanation.''\<close>

text \<open>The HTML page the send-email handler builds from the text: one paragraph per line.\<close>

definition htmlTemplate :: "jsstring \<Rightarrow> jsstring \<Rightarrow> jsstring" where
  \<open>htmlTemplate generatedSubject txt =
     ascii ''<!DOCTYPE html>\<newline>'' @
     ascii ''<html lang="en">\<newline>'' @
     ascii ''<head>\<newline>'' @
     ascii ''  <meta charset="UTF-8">\<newline>'' @
     ascii ''  <meta name="viewport" content="width=device-width, initial-scale=1.0">\<newline>'' @
     ascii ''  <title>'' @
     generatedSubject @
     ascii ''</title>\<newline>'' @
     ascii ''  <style>\<newline>'' @
     ascii ''    body {\<newline>'' @
     ascii ''      font-family: Arial, sans-serif;\<newline>'' @
     ascii ''      line-height: 1.6;\<newline>'' @
     ascii ''      color: #333;\<newline>'' @
     ascii ''      max-width: 650px;\<newline>'' @
     ascii ''      margin: 0 auto;\<newline>'' @
     ascii ''      padding: 20px;\<newline>'' @
     ascii ''    }\<newline>'' @
     ascii ''    .header {\<newline>'' @
     ascii ''      border-bottom: 2px solid #4169E1;\<newline>'' @
     ascii ''      padding-bottom: 10px;\<newline>'' @
     ascii ''      margin-bottom: 20px;\<newline>'' @
     ascii ''    }\<newline>'' @
     ascii ''    .header h1 {\<newline>'' @
     ascii ''      color: #4169E1;\<newline>'' @
     ascii ''      font-size: 24px;\<newline>'' @
     ascii ''      margin: 0;\<newline>'' @
     ascii ''    }\<newline>'' @
     ascii ''    .content {\<newline>'' @
     ascii ''      padding: 15px 0;\<newline>'' @
     ascii ''    }\<newline>'' @
     ascii ''    .footer {\<newline>'' @
     ascii ''      margin-top: 30px;\<newline>'' @
     ascii ''      padding-top: 10px;\<newline>'' @
     ascii ''      border-top: 1px solid #eee;\<newline>'' @
     ascii ''      font-size: 12px;\<newline>'' @
     ascii ''      color: #777;\<newline>'' @
     ascii ''    }\<newline>'' @
     ascii ''    p {\<newline>'' @
     ascii ''      margin: 0 0 15px;\<newline>'' @
     ascii ''    }\<newline>'' @
     ascii ''  </style>\<newline>'' @
     ascii ''</head>\<newline>'' @
     ascii ''<body>\<newline>'' @
     ascii ''  <div class="header">\<newline>'' @
     ascii ''    <h1>'' @
     generatedSubject @
     ascii ''</h1>\<newline>'' @
     ascii ''  </div>\<newline>'' @
     ascii ''  <div class="content">\<newline>'' @
     ascii ''    '' @
     paragraphs txt @
     ascii ''\<newline>'' @
     ascii ''  </div>\<newline>'' @
     ascii ''  <div class="footer">\<newline>'' @
     ascii ''    <p>This email was sent using Gemini Email Subject Generator</p>\<newline>'' @
     ascii ''  </div>\<newline>'' @
     ascii ''</body>\<newline>'' @
     ascii ''</html>''\<close>

text \<open>The text of the response after the transport accepted the message.\<close>

definition emailSentText :: "jsstring \<Rightarrow> jsstring \<Rightarrow> jsstring \<Rightarrow> jsstring" where
  \<open>emailSentText recipient generatedSubject messageId =
     ascii ''<div style="font-family: Arial, sans-serif; padding: 20px; border-radius: 10px; border: 1px solid #e0e0e0; background-color: #f9f9f9; max-width: 600px; margin: 0 auto;">\<newline>'' @
     ascii ''  <div style="background-color: #4CAF50; color: white; padding: 10px 15px; border-radius: 5px; margin-bottom: 15px;">\<newline>'' @
     ascii ''    <h2 style="margin: 0; font-size: 18px;">'' @
     [0x2705] @
     ascii '' Email Successfully Sent</h2>\<newline>'' @
     ascii ''  </div>\<newline>'' @
     ascii ''  \<newline>'' @
     ascii ''  <div style="padding: 10px; background-color: white; border-radius: 5px; margin-bottom: 15px;">\<newline>'' @
     ascii ''    <p><strong>To:</strong> '' @
     recipient @
     ascii ''</p>\<newline>'' @
     ascii ''    <p><strong>Subject:</strong> "'' @
     generatedSubject @
     ascii ''"</p>\<newline>'' @
     ascii ''    <p><strong>Message ID:</strong> '' @
     messageId @
     ascii ''</p>\<newline>'' @
     ascii ''  </div>\<newline>'' @
     ascii ''  \<newline>'' @
     ascii ''  <div style="background-color: #f0f0f0; padding: 10px; border-radius: 5px; border-left: 3px solid #4CAF50;">\<newline>'' @
     ascii ''    <p>The email has been delivered with your provided content.</p>\<newline>'' @
     ascii ''    <p style="font-style: italic; color: #666;">Note: This is just a confirmation message displayed here, not the actual email content.</p>\<newline>'' @
     ascii ''  </div>\<newline>'' @
     ascii ''</div>''\<close>

text \<open>The text of the response after the transport threw; \<open>message\<close> is \<^verbatim>\<open>error.message\<close>, or \<^verbatim>\<open>String(error)\<close> for a value that is no \<^verbatim>\<open>Error\<close>.\<close>

definition emailFailedText :: "jsstring \<Rightarrow> jsstring" where
  \<open>emailFailedText message =
     ascii ''<div style="font-family: Arial, sans-serif; padding: 20px; border-radius: 10px; border: 1px solid #e0e0e0; background-color: #fff0f0; max-width: 600px; margin: 0 auto;">\<newline>'' @
     ascii ''  <div style="background-color: #f44336; color: white; padding: 10px 15px; border-radius: 5px; margin-bottom: 15px;">\<newline>'' @
     ascii ''    <h2 style="margin: 0; font-size: 18px;">'' @
     [0x274C] @
     ascii '' Email Sending Failed</h2>\<newline>'' @
     ascii ''  </div>\<newline>'' @
     ascii ''  \<newline>'' @
     ascii ''  <div style="padding: 15px; background-color: white; border-radius: 5px;">\<newline>'' @
     ascii ''    <p><strong>Error:</strong> '' @
     message @
     ascii ''</p>\<newline>'' @
     ascii ''    <p>Please check your email credentials and try again.</p>\<newline>'' @
     ascii ''  </div>\<newline>'' @
     ascii ''</div>''\<close>

text \<open>The text of the response of generate-thinking.\<close>

definition styledHtmlResponse :: "jsstring \<Rightarrow> jsstring \<Rightarrow> jsstring \<Rightarrow> jsstring" where
  \<open>styledHtmlResponse prompt htmlResponse filePath =
     ascii ''\<newline>'' @
     ascii ''<div style="font-family: Arial, sans-serif; max-width: 800px; margin: 0 auto; padding: 20px; line-height: 1.5; color: #333;">\<newline>'' @
     ascii ''  <div style="background-color: #f0f8ff; padding: 15px; border-radius: 8px; margin-bottom: 20px; border-left: 5px solid #4169e1;">\<newline>'' @
     ascii ''    <h2 style="margin-top: 0; color: #4169e1;">Gemini Thinking Response</h2>\<newline>'' @
     ascii ''    <p style="font-style: italic; color: #666;">Generated based on prompt: "'' @
     prompt @
     ascii ''"</p>\<newline>'' @
     ascii ''  </div>\<newline>'' @
     ascii ''\<newline>'' @
     ascii ''  <div style="background-color: white; padding: 20px; border-radius: 8px; box-shadow: 0 2px 4px rgba(0,0,0,0.1);">\<newline>'' @
     ascii ''    '' @
     htmlResponse @
     ascii ''\<newline>'' @
     ascii ''  </div>\<newline>'' @
     ascii ''  \<newline>'' @
     ascii ''  <div style="background-color: #f5f5f5; padding: 10px; border-radius: 8px; margin-top: 20px; font-size: 0.9em; color: #666;">\<newline>'' @
     ascii ''    <p>Response saved to: '' @
     filePath @
     ascii ''</p>\<newline>'' @
     ascii ''  </div>\<newline>'' @
     ascii ''</div>''\<close>

text \<open>The prompt of the analysis request.\<close>

definition analysisPrompt :: "nat \<Rightarrow> nat \<Rightarrow> jsstring \<Rightarrow> jsstring \<Rightarrow> jsstring" where
  \<open>analysisPrompt rows columns statisticsJson analysisType =
     ascii ''Analyze this dataset with '' @
     digits rows @
     ascii '' rows and '' @
     digits columns @
     ascii '' columns.\<newline>'' @
     ascii ''        \<newline>'' @
     ascii ''        Basic statistics:\<newline>'' @
     ascii ''        '' @
     statisticsJson @
     ascii ''\<newline>'' @
     ascii ''        \<newline>'' @
     ascii ''        Please provide:\<newline>'' @
     ascii ''        1. Key insights from the data\<newline>'' @
     ascii ''        2. Patterns and trends\<newline>'' @
     ascii ''        3. Potential anomalies\<newline>'' @
     ascii ''        4. Recommendations for further analysis\<newline>'' @
     ascii ''        \<newline>'' @
     ascii ''        '' @
     (if analysisType = ascii ''detailed''
      then ascii ''Please provide a detailed analysis with specific examples and correlations.''
      else ascii ''Keep the analysis concise and focused on the most important findings.'')\<close>

text \<open>The text of the response of analyze-data.\<close>

definition analysisCompleteText :: "jsstring \<Rightarrow> jsstring \<Rightarrow> Statistics \<Rightarrow> jsstring \<Rightarrow> jsstring \<Rightarrow> jsstring \<Rightarrow> jsstring" where
  \<open>analysisCompleteText fileName analysisType stats reportPath analysisPath plotsDir =
     ascii ''<div style="font-family: Arial, sans-serif; padding: 20px; border-radius: 10px; border: 1px solid #e0e0e0; background-color: #f9f9f9;">\<newline>'' @
     ascii ''  <div style="background-color: #4CAF50; color: white; padding: 10px 15px; border-radius: 5px; margin-bottom: 15px;">\<newline>'' @
     ascii ''    <h2 style="margin: 0; font-size: 18px;">'' @
     [0x2705] @
     ascii '' Data Analysis Complete</h2>\<newline>'' @
     ascii ''  </div>\<newline>'' @
     ascii ''  \<newline>'' @
     ascii ''  <div style="padding: 15px; background-color: white; border-radius: 5px; margin-bottom: 15px;">\<newline>'' @
     ascii ''    <p><strong>File Analyzed:</strong> '' @
     fileName @
     ascii ''</p>\<newline>'' @
     ascii ''    <p><strong>Analysis Type:</strong> '' @
     analysisType @
     ascii ''</p>\<newline>'' @
     ascii ''    <p><strong>Rows Processed:</strong> '' @
     digits (rowCount stats) @
     ascii ''</p>\<newline>'' @
     ascii ''    <p><strong>Columns Analyzed:</strong> '' @
     digits (columnCount stats) @
     ascii ''</p>\<newline>'' @
     ascii ''  </div>\<newline>'' @
     ascii ''  \<newline>'' @
     ascii ''  <div style="background-color: #f0f0f0; padding: 15px; border-radius: 5px; margin-bottom: 15px;">\<newline>'' @
     ascii ''    <h3 style="margin-top: 0;">Output Files:</h3>\<newline>'' @
     ascii ''    <ul>\<newline>'' @
     ascii ''      <p>'' @
     [0xD83D, 0xDCCA] @
     ascii '' HTML Report: '' @
     reportPath @
     ascii ''</p>\<newline>'' @
     ascii ''      <p>'' @
     [0xD83D, 0xDCDD] @
     ascii '' Analysis Text: '' @
     analysisPath @
     ascii ''</p>\<newline>'' @
     ascii ''      <p>'' @
     [0xD83D, 0xDCC8] @
     ascii '' Generated Plots: '' @
     plotsDir @
     ascii ''</p>\<newline>'' @
     ascii ''    </ul>\<newline>'' @
     ascii ''  </div>\<newline>'' @
     ascii ''  \<newline>'' @
     ascii ''  <div style="border-left: 3px solid #4CAF50; padding-left: 15px; margin-top: 15px;">\<newline>'' @
     ascii ''    <p>The analysis has been saved to the specified directory. Open the HTML report for an interactive view of the results.</p>\<newline>'' @
     ascii ''  </div>\<newline>'' @
     ascii ''</div>''\<close>

section \<open>The environment and the state of the server\<close>

text \<open>
  \<open>world\<close> is what the handler calls and does not define: the generative model (its
  \<open>k\<close>-th call with a prompt returns the text of the response, or throws), the mail
  transport (returns the message id, or throws a value whose message is given), the
  environment variables, the clock, the path functions, the decoders and the parsers of
  the uploaded file, and the conversion of a string to a number.  The pages of a chart and
  of the report, the JSON text of the statistics and the conversion of a response to HTML
  are renderings that no property below reads; they are taken as given functions too.
\<close>

record attachment =
  att_filename :: jsstring
  att_content :: jsstring
  att_encoding :: jsstring
  att_cid :: jsstring
  att_contentType :: jsstring

record mailOptions =
  m_from :: jsstring
  m_to :: jsstring
  m_subject :: jsstring
  m_text :: jsstring
  m_html :: jsstring
  m_attachments :: "attachment list"

datatype file_data = Binary "8 word list" | Textual jsstring

record world =
  generateContent :: "nat \<Rightarrow> jsstring \<Rightarrow> jsstring + jsstring"
  sendMail :: "mailOptions \<Rightarrow> jsstring + jsstring"
  NODEMAILER_EMAIL :: "jsstring option"
  NODEMAILER_PASSWORD :: "jsstring option"
  Date_now :: nat
  cwd :: jsstring
  path_join :: "jsstring \<Rightarrow> jsstring \<Rightarrow> jsstring"
  path_resolve :: "jsstring \<Rightarrow> jsstring"
  base64 :: "jsstring \<Rightarrow> 8 word list"
  utf8 :: "8 word list \<Rightarrow> jsstring"
  Papa_parse :: "jsstring \<Rightarrow> DataRow list"
  XLSX_sheet_to_json :: "8 word list \<Rightarrow> jsstring + DataRow list"
  StringToNumber :: "jsstring \<Rightarrow> jsnum"
  JSON_stringify :: "Statistics \<Rightarrow> jsstring"
  markdown_html :: "jsstring \<Rightarrow> jsstring"
  chartHtml :: "jsstring \<Rightarrow> jsnum list \<Rightarrow> nat list \<Rightarrow> jsstring"
  htmlReport :: "Statistics \<Rightarrow> jsstring \<Rightarrow> jsstring list \<Rightarrow> jsstring \<Rightarrow> jsstring"

text \<open>
  The state a call can change: the files and the directories on disk, and what has been
  sent out, the prompts to the model and the messages handed to the mail transport.  The
  calls of the file system are taken to succeed; of a directory made with its parents only
  the directory itself is recorded.
\<close>

record state =
  files :: "jsstring \<rightharpoonup> file_data"
  dirs :: "jsstring set"
  prompts :: "jsstring list"
  mails :: "mailOptions list"

text \<open>The response envelope \<^verbatim>\<open>{content: [{type: "text", text}]}\<close>.\<close>

datatype content_item = TextContent jsstring

type_synonym ToolResult = "content_item list"

definition existsSync :: "state \<Rightarrow> jsstring \<Rightarrow> bool" where
  "existsSync st p = (p \<in> dirs st \<or> files st p \<noteq> None)"

definition mkdirSync :: "state \<Rightarrow> jsstring \<Rightarrow> state" where
  "mkdirSync st p = st\<lparr>dirs := insert p (dirs st)\<rparr>"

definition writeFileSync :: "state \<Rightarrow> jsstring \<Rightarrow> file_data \<Rightarrow> state" where
  "writeFileSync st p d = st\<lparr>files := (files st)(p \<mapsto> d)\<rparr>"

text \<open>\<^verbatim>\<open>if (!fs.existsSync(dir)) { fs.mkdirSync(dir, ...) }\<close>\<close>

definition ensure_dir :: "state \<Rightarrow> jsstring \<Rightarrow> state" where
  "ensure_dir st p = (if existsSync st p then st else mkdirSync st p)"

text \<open>\<^verbatim>\<open>path.join(process.cwd(), 'output')\<close>\<close>

definition outputDir :: "world \<Rightarrow> jsstring" where
  "outputDir w = path_join w (cwd w) (ascii ''output'')"

text \<open>
  \<^verbatim>\<open>(await model.generateContent(prompt)).response.text()\<close>: the prompt goes out, and
  the call returns the text or throws.
\<close>

definition ask :: "world \<Rightarrow> state \<Rightarrow> jsstring \<Rightarrow> (error + jsstring) \<times> state" where
  "ask w st prompt =
     (case generateContent w (length (prompts st)) prompt of
        Inl message \<Rightarrow> Inl (Error message)
      | Inr response \<Rightarrow> Inr response,
      st\<lparr>prompts := prompts st @ [prompt]\<rparr>)"

section \<open>The handlers\<close>

subsection \<open>generate-thinking\<close>

definition generate_thinking ::
  "world \<Rightarrow> state \<Rightarrow> (jsstring \<times> json) list \<Rightarrow> (error + ToolResult) \<times> state" where
  "generate_thinking w st args =
     (case GenerateThinkingSchema args of
        Inl e \<Rightarrow> (Inl e, st)
      | Inr a \<Rightarrow>
          (let saveDir =
                 (case g_outputDir a of
                    Some d \<Rightarrow> if d \<noteq> [] then path_resolve w d else outputDir w
                  | None \<Rightarrow> outputDir w);
               st1 = ensure_dir st saveDir
           in case ask w st1 (g_prompt a) of
                (Inl e, st2) \<Rightarrow> (Inl e, st2)
              | (Inr responseText, st2) \<Rightarrow>
                  (let filePath =
                         path_join w saveDir
                           (ascii ''gemini_thinking_'' @ digits (Date_now w) @ ascii ''.txt'');
                       st3 = writeFileSync st2 filePath (Textual responseText)
                   in (Inr [TextContent
                              (styledHtmlResponse (g_prompt a) (markdown_html w responseText)
                                 filePath)],
                       st3))))"

subsection \<open>send-email\<close>

text \<open>
  The subject: one request, the clean-up, and when the result fails the test one fallback
  request, its clean-up and the truncation.
\<close>

definition generate_subject :: "world \<Rightarrow> state \<Rightarrow> jsstring \<Rightarrow> (error + jsstring) \<times> state" where
  "generate_subject w st subjectPrompt =
     (case ask w st (enhancedPrompt subjectPrompt) of
        (Inl e, st1) \<Rightarrow> (Inl e, st1)
      | (Inr response, st1) \<Rightarrow>
          (let generatedSubject = cleanup response
           in if needs_fallback generatedSubject then
                (case ask w st1 (fallbackPrompt subjectPrompt) of
                   (Inl e, st2) \<Rightarrow> (Inl e, st2)
                 | (Inr fallback, st2) \<Rightarrow> (Inr (truncate_subject (cleanup fallback)), st2))
              else (Inr generatedSubject, st1)))"

text \<open>
  \<^verbatim>\<open>if (!emailUser || !emailPass)\<close>: both variables are set and not empty.
\<close>

definition credentials :: "world \<Rightarrow> (jsstring \<times> jsstring) option" where
  "credentials w =
     (case (NODEMAILER_EMAIL w, NODEMAILER_PASSWORD w) of
        (Some emailUser, Some emailPass) \<Rightarrow>
          if emailUser \<noteq> [] \<and> emailPass \<noteq> [] then Some (emailUser, emailPass) else None
      | _ \<Rightarrow> None)"

text \<open>
  The attachments: an image whose data matches the pattern of a data URL becomes an
  attachment named after its position among the images; the others are dropped.
\<close>

fun attachments_from :: "nat \<Rightarrow> image list \<Rightarrow> attachment list" where
  "attachments_from index [] = []"
| "attachments_from index (img # imgs) =
     (case match_data_url (image_data img) of
        Some (type, base64Data) \<Rightarrow>
          \<lparr> att_filename = image_name img, att_content = base64Data,
            att_encoding = ascii ''base64'', att_cid = ascii ''image'' @ digits index,
            att_contentType = type \<rparr> # attachments_from (Suc index) imgs
      | None \<Rightarrow> attachments_from (Suc index) imgs)"

text \<open>
  \<^verbatim>\<open>let htmlContent = html; if (!htmlContent && text) { htmlContent = ... }\<close>: a string is
  true when it is not empty.
\<close>

definition htmlContent :: "SendEmailArgs \<Rightarrow> jsstring \<Rightarrow> jsstring option" where
  "htmlContent a generatedSubject =
     (if (case e_html a of None \<Rightarrow> True | Some h \<Rightarrow> h = []) \<and> e_text a \<noteq> []
      then Some (htmlTemplate generatedSubject (e_text a)) else e_html a)"

text \<open>The message; its html is \<^verbatim>\<open>htmlContent || text\<close>.\<close>

definition mail_options :: "SendEmailArgs \<Rightarrow> jsstring \<Rightarrow> jsstring \<Rightarrow> mailOptions" where
  "mail_options a emailUser generatedSubject =
     \<lparr> m_from = emailUser, m_to = e_to a, m_subject = generatedSubject, m_text = e_text a,
       m_html =
         (case htmlContent a generatedSubject of
            Some h \<Rightarrow> if h \<noteq> [] then h else e_text a
          | None \<Rightarrow> e_text a),
       m_attachments = attachments_from 0 (e_images a) \<rparr>"

definition send_email ::
  "world \<Rightarrow> state \<Rightarrow> (jsstring \<times> json) list \<Rightarrow> (error + ToolResult) \<times> state" where
  "send_email w st args =
     (case SendEmailSchema args of
        Inl e \<Rightarrow> (Inl e, st)
      | Inr a \<Rightarrow>
          (case generate_subject w st (e_subjectPrompt a) of
             (Inl e, st1) \<Rightarrow> (Inl e, st1)
           | (Inr generatedSubject, st1) \<Rightarrow>
               (case credentials w of
                  None \<Rightarrow>
                    (Inl (Error (ascii ''Email credentials (NODEMAILER_EMAIL and NODEMAILER_PASSWORD) are not set in environment variables'')),
                     st1)
                | Some (emailUser, emailPass) \<Rightarrow>
                    (let options = mail_options a emailUser generatedSubject;
                         st2 = st1\<lparr>mails := mails st1 @ [options]\<rparr>
                     in case sendMail w options of
                          Inr messageId \<Rightarrow>
                            (Inr [TextContent (emailSentText (e_to a) generatedSubject messageId)],
                             st2)
                        | Inl message \<Rightarrow> (Inr [TextContent (emailFailedText message)], st2)))))"

subsection \<open>analyze-data\<close>

text \<open>
  The table of the uploaded file: a name ending in \<^verbatim>\<open>.csv\<close> is read as text and parsed
  with a header row; any other is read as a workbook, whose reader may throw.
\<close>

definition load_table :: "world \<Rightarrow> jsstring \<Rightarrow> 8 word list \<Rightarrow> error + DataRow list" where
  "load_table w fileName buffer =
     (if endsWith fileName (ascii ''.csv'') then Inr (Papa_parse w (utf8 w buffer))
      else (case XLSX_sheet_to_json w buffer of
              Inl message \<Rightarrow> Inl (Error message)
            | Inr data \<Rightarrow> Inr data))"

text \<open>
  \<^verbatim>\<open>customOutputDir ? path.resolve(customOutputDir) : path.join(outputDir, 'analysis')\<close>
\<close>

definition analysis_saveDir :: "world \<Rightarrow> AnalyzeDataArgs \<Rightarrow> jsstring" where
  "analysis_saveDir w a =
     (case a_outputDir a of
        Some d \<Rightarrow>
          if d \<noteq> [] then path_resolve w d else path_join w (outputDir w) (ascii ''analysis'')
      | None \<Rightarrow> path_join w (outputDir w) (ascii ''analysis''))"

text \<open>\<^verbatim>\<open>path.join(plotsDir, `${col}_histogram_${timestamp}.html`)\<close>\<close>

definition plot_path :: "world \<Rightarrow> jsstring \<Rightarrow> jsstring \<Rightarrow> jsstring" where
  "plot_path w plotsDir col =
     path_join w plotsDir (col @ ascii ''_histogram_'' @ digits (Date_now w) @ ascii ''.html'')"

text \<open>
  The loop that writes one chart per numeric column; it runs after the statistics, so on
  a table that has a first row.
\<close>

definition write_plots ::
  "world \<Rightarrow> state \<Rightarrow> DataRow list \<Rightarrow> jsstring \<Rightarrow> state \<times> jsstring list" where
  "write_plots w st data plotsDir =
     foldl
       (\<lambda>(st', plots) col.
          (let vs = col_values (StringToNumber w) data col
           in (writeFileSync st' (plot_path w plotsDir col)
                 (Textual (chartHtml w col (bins vs) (counts vs))),
               plots @ [plot_path w plotsDir col])))
       (st, [])
       (case data of [] \<Rightarrow> [] | row0 # rest \<Rightarrow> numericColumns row0)"

definition analyze_data ::
  "world \<Rightarrow> state \<Rightarrow> (jsstring \<times> json) list \<Rightarrow> (error + ToolResult) \<times> state" where
  "analyze_data w st args =
     (case AnalyzeDataSchema args of
        Inl e \<Rightarrow> (Inl e, st)
      | Inr a \<Rightarrow>
          (let saveDir = analysis_saveDir w a;
               st1 = ensure_dir st saveDir;
               buffer = base64 w (a_fileData a);
               tempFilePath = path_join w saveDir (a_fileName a);
               st2 = writeFileSync st1 tempFilePath (Binary buffer)
           in case load_table w (a_fileName a) buffer of
                Inl e \<Rightarrow> (Inl e, st2)
              | Inr data \<Rightarrow>
                  (case statistics (StringToNumber w) data of
                     Inl e \<Rightarrow> (Inl e, st2)
                   | Inr stats \<Rightarrow>
                       (let plotsDir = path_join w saveDir (ascii ''plots'');
                            st3 = ensure_dir st2 plotsDir
                        in case write_plots w st3 data plotsDir of
                             (st4, plots) \<Rightarrow>
                               (case ask w st4
                                       (analysisPrompt (length data) (columnCount stats)
                                          (JSON_stringify w stats) (a_analysisType a)) of
                                  (Inl e, st5) \<Rightarrow> (Inl e, st5)
                                | (Inr analysisText, st5) \<Rightarrow>
                                    (let analysisPath =
                                           path_join w saveDir
                                             (ascii ''analysis_'' @ digits (Date_now w) @ ascii ''.txt'');
                                         st6 = writeFileSync st5 analysisPath (Textual analysisText);
                                         reportPath =
                                           path_join w saveDir
                                             (ascii ''report_'' @ digits (Date_now w) @ ascii ''.html'');
                                         st7 = writeFileSync st6 reportPath
                                                 (Textual (htmlReport w stats analysisText plots saveDir))
                                     in (Inr [TextContent
                                                (analysisCompleteText (a_fileName a)
                                                   (a_analysisType a) stats reportPath
                                                   analysisPath plotsDir)],
                                         st7)))))))"

subsection \<open>The dispatch\<close>

text \<open>
  The handler of a tool call: a switch on the name.  What a case throws is logged and
  thrown again, so it reaches the caller as the error of the call.
\<close>

definition call_tool :: "world \<Rightarrow> state \<Rightarrow> ToolRequest \<Rightarrow> (error + ToolResult) \<times> state" where
  "call_tool w st request =
     (if tool_name request = ascii ''generate-thinking'' then
        generate_thinking w st (arguments request)
      else if tool_name request = ascii ''send-email'' then
        send_email w st (arguments request)
      else if tool_name request = ascii ''analyze-data'' then
        analyze_data w st (arguments request)
      else (Inl (Error (ascii ''Unknown tool: '' @ tool_name request)), st))"

text \<open>
  Modelled from the spec: the request cycle of the protocol library, which is not part of
  the sources.  The server answers the calls one after the other, each to its end, each in
  the environment of its time and from the state the one before left; what a call throws
  is the answer to that call.
\<close>

fun serve :: "state \<Rightarrow> (world \<times> ToolRequest) list \<Rightarrow> (error + ToolResult) list \<times> state" where
  "serve st [] = ([], st)"
| "serve st ((w, request) # later) =
     (case call_tool w st request of
        (result, st1) \<Rightarrow> (case serve st1 later of (results, st2) \<Rightarrow> (result # results, st2)))"

section \<open>A sample environment\<close>

text \<open>
  An environment for the concrete runs below: the model answers every prompt with the
  same subject, the transport accepts every message, the credentials are set, paths are
  joined with a slash, and the uploaded workbook has one numeric column \<^verbatim>\<open>a\<close> with the
  values 1 and 2.
\<close>

definition sample_world :: world where
  "sample_world =
     \<lparr> generateContent = (\<lambda>k prompt. Inr (ascii ''Quarterly sales report'')),
       sendMail = (\<lambda>options. Inr (ascii ''id-1'')),
       NODEMAILER_EMAIL = Some (ascii ''me@example.com''),
       NODEMAILER_PASSWORD = Some (ascii ''secret''),
       Date_now = 1700,
       cwd = ascii ''/srv'',
       path_join = (\<lambda>a b. a @ ascii ''/'' @ b),
       path_resolve = (\<lambda>p. p),
       base64 = (\<lambda>s. []),
       utf8 = (\<lambda>b. []),
       Papa_parse = (\<lambda>s. []),
       XLSX_sheet_to_json =
         (\<lambda>b. Inr [[(ascii ''a'', Num (Fin 1))], [(ascii ''a'', Num (Fin 2))]]),
       StringToNumber = (\<lambda>s. NaN),
       JSON_stringify = (\<lambda>s. []),
       markdown_html = (\<lambda>s. s),
       chartHtml = (\<lambda>col bs cs. col),
       htmlReport = (\<lambda>stats analysisText plots saveDir. analysisText) \<rparr>"

definition empty_state :: state where
  "empty_state = \<lparr> files = Map.empty, dirs = {}, prompts = [], mails = [] \<rparr>"

text \<open>
  The same environment with a model whose first answer fails the test on the subject and
  whose later answers carry a label and a line break.
\<close>

definition fallback_world :: world where
  "fallback_world =
     sample_world\<lparr>generateContent :=
       (\<lambda>k prompt. if k = 0 then Inr (ascii ''Option 1: Sales update'')
                    else Inr (ascii ''Subject: Quarterly sales report for the northern region\<newline>''))\<rparr>"


text \<open>The same environment with a mail transport that refuses the connection.\<close>

definition refusing_world :: world where
  "refusing_world = sample_world\<lparr>sendMail := (\<lambda>options. Inl (ascii ''connect ECONNREFUSED''))\<rparr>"

definition sample_email_args :: "(jsstring \<times> json) list" where
  "sample_email_args =
     [(ascii ''to'', JString (ascii ''you@example.com'')),
      (ascii ''subjectPrompt'', JString (ascii ''sales'')),
      (ascii ''text'', JString (ascii ''Hello\<newline>World''))]"

definition empty_text_args :: "(jsstring \<times> json) list" where
  "empty_text_args =
     [(ascii ''to'', JString (ascii ''you@example.com'')),
      (ascii ''subjectPrompt'', JString (ascii ''sales'')),
      (ascii ''text'', JString [])]"




section \<open>Statistics: properties\<close>

lemma foldl_jadd_Fin: "foldl (\<lambda>a b. jadd a b) (Fin a) (map Fin rs) = Fin (a + sum_list rs)"
  by (induction rs arbitrary: a) (simp_all add: add.assoc)

lemma Math_pow_Fin: "Math_pow (Fin a) n = Fin (a ^ n)"
  by (cases n) simp_all

lemma foldl_squares_Fin:
  "foldl (\<lambda>a b. jadd a (Math_pow (jsub b (Fin m)) 2)) (Fin a) (map Fin rs)
     = Fin (a + (\<Sum>v\<leftarrow>rs. (v - m)\<^sup>2))"
  by (induction rs arbitrary: a) (simp_all add: jsub_def add.assoc Math_pow_Fin)

lemma mean_of_Fin:
  "rs \<noteq> [] \<Longrightarrow> mean_of (map Fin rs) = Fin (sum_list rs / real (length rs))"
  by (simp add: mean_of_def foldl_jadd_Fin)

lemma variance_of_Fin:
  "rs \<noteq> [] \<Longrightarrow> variance_of (map Fin rs)
     = Fin ((\<Sum>v\<leftarrow>rs. (v - sum_list rs / real (length rs))\<^sup>2) / real (length rs))"
  by (simp add: variance_of_def mean_of_Fin foldl_squares_Fin)

lemma foldl_min_Fin: "foldl Math_min2 (Fin a) (map Fin rs) = Fin (Min (insert a (set rs)))"
proof (induction rs arbitrary: a)
  case Nil
  show ?case by simp
next
  case (Cons r rs)
  have "Math_min2 (Fin a) (Fin r) = Fin (min a r)"
    by (simp add: Math_min2_def isNaN_def min_def)
  moreover have "Min (insert (min a r) (set rs)) = Min (insert a (insert r (set rs)))"
    by (cases "set rs = {}") (simp_all add: min.assoc)
  ultimately show ?case using Cons.IH [of "min a r"] by simp
qed

lemma foldl_max_Fin: "foldl Math_max2 (Fin a) (map Fin rs) = Fin (Max (insert a (set rs)))"
proof (induction rs arbitrary: a)
  case Nil
  show ?case by simp
next
  case (Cons r rs)
  have "Math_max2 (Fin a) (Fin r) = Fin (max a r)"
    by (simp add: Math_max2_def isNaN_def max_def)
  moreover have "Max (insert (max a r) (set rs)) = Max (insert a (insert r (set rs)))"
    by (cases "set rs = {}") (simp_all add: max.assoc)
  ultimately show ?case using Cons.IH [of "max a r"] by simp
qed

lemma Math_min_Fin: "rs \<noteq> [] \<Longrightarrow> Math_min (map Fin rs) = Fin (Min (set rs))"
  by (cases rs) (simp_all add: Math_min_def Math_min2_def isNaN_def foldl_min_Fin)

lemma Math_max_Fin: "rs \<noteq> [] \<Longrightarrow> Math_max (map Fin rs) = Fin (Max (set rs))"
  by (cases rs) (simp_all add: Math_max_def Math_max2_def isNaN_def foldl_max_Fin)

lemma insort_by_Fin:
  "insort_by (\<lambda>a b. jsub a b) (Fin x) (map Fin ys) = map Fin (insort x ys)"
  by (induction ys) (auto simp: positive_def jsub_def)

lemma sorted_values_Fin: "sorted_values (map Fin rs) = map Fin (sort rs)"
  unfolding sorted_values_def sort_by_def sort_key_def
  by (induction rs) (simp_all add: insort_by_Fin)

lemma median_of_Fin:
  assumes "S \<noteq> []"
  shows "median_of (map Fin S) =
           Fin (if even (length S) then (S ! (length S div 2 - 1) + S ! (length S div 2)) / 2
                else S ! (length S div 2))"
proof (cases "even (length S)")
  case True
  with assms have n: "2 \<le> length S" by (cases "length S") (auto elim: oddE)
  then have i1: "nat (int (length S) div 2 - 1) = length S div 2 - 1"
    and i2: "nat (int (length S) div 2) = length S div 2" by linarith+
  from n have r: "0 \<le> int (length S) div 2 - 1" "length S div 2 - 1 < length S"
    "length S div 2 < length S" by linarith+
  from True have "length S mod 2 = 0" by presburger
  then show ?thesis using True r i1 i2 by (simp add: median_of_def elem_at_def)
next
  case False
  then have "length S mod 2 \<noteq> 0" by presburger
  moreover from assms have "length S div 2 < length S" by simp
  ultimately show ?thesis using False by (simp add: median_of_def elem_at_def)
qed

lemma numericStats_lookup:
  "foldl (\<lambda>m col. m(col \<mapsto> f col)) m0 cols c = (if c \<in> set cols then Some (f c) else m0 c)"
  by (induction cols arbitrary: m0) auto





lemma jadd_assoc: "jadd (jadd a b) c = jadd a (jadd b c)"
  by (cases a; cases b; cases c) simp_all

lemma jadd_zero: "jadd (Fin 0) a = a" "jadd a (Fin 0) = a"
  by (cases a; simp)+

lemma foldl_jadd_sum: "foldl (\<lambda>a b. jadd a b) a vs = jadd a (js_sum vs)"
  by (induction vs arbitrary: a) (simp_all add: js_sum_def jadd_zero jadd_assoc)

lemma mean_of_sum: "mean_of vs = jdiv (js_sum vs) (Fin (real (length vs)))"
  by (simp add: mean_of_def foldl_jadd_sum jadd_zero)

lemma foldl_jadd_map_sum: "foldl (\<lambda>a b. jadd a (g b)) a vs = jadd a (js_sum (map g vs))"
  by (induction vs arbitrary: a) (simp_all add: js_sum_def jadd_zero jadd_assoc)

lemma variance_of_sum:
  "variance_of vs =
     jdiv (js_sum (map (\<lambda>v. Math_pow (jsub v (mean_of vs)) 2) vs)) (Fin (real (length vs)))"
  by (simp add: variance_of_def foldl_jadd_map_sum jadd_zero)

lemma positive_jsub: "x \<noteq> NaN \<Longrightarrow> y \<noteq> NaN \<Longrightarrow> positive (jsub x y) = jless y x"
  by (cases x; cases y) (simp_all add: positive_def jsub_def)

lemma jless_asym: "jless a b \<Longrightarrow> \<not> jless b a"
  by (cases a; cases b) simp_all

lemma set_insort_by: "set (insort_by cmp x ys) = insert x (set ys)"
  by (induction ys) auto

lemma jless_trans:
  "a \<noteq> NaN \<Longrightarrow> b \<noteq> NaN \<Longrightarrow> c \<noteq> NaN \<Longrightarrow> \<not> jless b a \<Longrightarrow> \<not> jless c b \<Longrightarrow> \<not> jless c a"
  by (cases a; cases b; cases c) simp_all

lemma ascending_insort_by:
  assumes "x \<noteq> NaN" and "NaN \<notin> set ys" and "ascending ys"
  shows "ascending (insort_by (\<lambda>a b. jsub a b) x ys)"
  using assms
proof (induction ys)
  case Nil
  then show ?case by (simp add: ascending_def)
next
  case (Cons y ys)
  then have y: "y \<noteq> NaN" and ys: "NaN \<notin> set ys" by auto
  from Cons.prems have le: "\<forall>z\<in>set ys. \<not> jless z y" and asc: "ascending ys"
    by (simp_all add: ascending_def)
  show ?case
  proof (cases "jless y x")
    case False
    have "\<forall>z\<in>set ys. \<not> jless z x"
    proof
      fix z assume z: "z \<in> set ys"
      with ys have "z \<noteq> NaN" by auto
      from jless_trans [OF Cons.prems(1) y this False] le z show "\<not> jless z x" by blast
    qed
    with False le asc Cons.prems(1) y show ?thesis
      by (simp add: positive_jsub ascending_def)
  next
    case True
    from Cons.IH [OF Cons.prems(1) ys asc]
    have ih: "ascending (insort_by (\<lambda>a b. jsub a b) x ys)" .
    from True have "\<not> jless x y" by (rule jless_asym)
    with le have "\<forall>z\<in>set (insort_by (\<lambda>a b. jsub a b) x ys). \<not> jless z y"
      by (simp add: set_insort_by)
    with ih True Cons.prems(1) y show ?thesis
      by (simp add: positive_jsub ascending_def)
  qed
qed

lemma set_sort_by: "set (sort_by cmp vs) = set vs"
  by (induction vs) (simp_all add: sort_by_def set_insort_by)

lemma ascending_sorted_values: "NaN \<notin> set vs \<Longrightarrow> ascending (sorted_values vs)"
proof (induction vs)
  case Nil
  then show ?case by (simp add: sorted_values_def sort_by_def ascending_def)
next
  case (Cons v vs)
  then have "ascending (sort_by (\<lambda>a b. jsub a b) vs)" by (simp add: sorted_values_def)
  moreover have "NaN \<notin> set (sort_by (\<lambda>a b. jsub a b) vs)" using Cons.prems by (simp add: set_sort_by)
  moreover have "v \<noteq> NaN" using Cons.prems by auto
  ultimately have "ascending (insort_by (\<lambda>a b. jsub a b) v (sort_by (\<lambda>a b. jsub a b) vs))"
    by (simp add: ascending_insort_by)
  then show ?case by (simp add: sorted_values_def sort_by_def)
qed

lemma count_insort_by: "count_list (insort_by cmp x ys) z = count_list (x # ys) z"
  by (induction ys) auto

lemma count_sorted_values: "count_list (sorted_values vs) z = count_list vs z"
  by (induction vs) (simp_all add: sorted_values_def sort_by_def count_insort_by)

lemma length_sorted_values: "length (sorted_values vs) = length vs"
proof -
  have "length (insort_by cmp x ys) = Suc (length ys)" for cmp x ys
    by (induction ys) simp_all
  then show ?thesis by (induction vs) (simp_all add: sorted_values_def sort_by_def)
qed

lemma median_of_middle:
  assumes "S \<noteq> []"
  shows "median_of S =
           (if even (length S)
            then jdiv (jadd (S ! (length S div 2 - 1)) (S ! (length S div 2))) (Fin 2)
            else S ! (length S div 2))"
proof (cases "even (length S)")
  case True
  with assms have n: "2 \<le> length S" by (cases "length S") (auto elim: oddE)
  then have i1: "nat (int (length S) div 2 - 1) = length S div 2 - 1"
    and i2: "nat (int (length S) div 2) = length S div 2" by linarith+
  from n have r: "0 \<le> int (length S) div 2 - 1" "length S div 2 - 1 < length S"
    "length S div 2 < length S" by linarith+
  from True have "length S mod 2 = 0" by presburger
  then show ?thesis using True r i1 i2 by (simp add: median_of_def elem_at_def)
next
  case False
  then have "length S mod 2 \<noteq> 0" by presburger
  moreover from assms have "length S div 2 < length S" by simp
  ultimately show ?thesis using False by (simp add: median_of_def elem_at_def)
qed

lemma numeric_stats_general:
  assumes "V \<noteq> []" and "NaN \<notin> set V"
  shows "mean (numeric_stats V) = jdiv (js_sum V) (Fin (real (length V)))"
    and "\<exists>S. ascending S \<and> (\<forall>v. count_list S v = count_list V v)
           \<and> median (numeric_stats V) =
               (if even (length V)
                then jdiv (jadd (S ! (length V div 2 - 1)) (S ! (length V div 2))) (Fin 2)
                else S ! (length V div 2))"
    and "std (numeric_stats V) =
           Math_sqrt (jdiv (js_sum (map (\<lambda>v. Math_pow (jsub v (mean (numeric_stats V))) 2) V))
                        (Fin (real (length V))))"
proof -
  show "mean (numeric_stats V) = jdiv (js_sum V) (Fin (real (length V)))"
    by (simp add: numeric_stats_def mean_of_sum)
  show "std (numeric_stats V) =
           Math_sqrt (jdiv (js_sum (map (\<lambda>v. Math_pow (jsub v (mean (numeric_stats V))) 2) V))
                        (Fin (real (length V))))"
    by (simp add: numeric_stats_def variance_of_sum)
  have ne: "sorted_values V \<noteq> []"
    using assms(1) length_sorted_values [of V] by (metis length_0_conv)
  have "median (numeric_stats V) =
      (if even (length V)
       then jdiv (jadd (sorted_values V ! (length V div 2 - 1)) (sorted_values V ! (length V div 2)))
              (Fin 2)
       else sorted_values V ! (length V div 2))"
    using median_of_middle [OF ne] by (simp add: numeric_stats_def length_sorted_values)
  with ascending_sorted_values [OF assms(2)] count_sorted_values [of V]
  show "\<exists>S. ascending S \<and> (\<forall>v. count_list S v = count_list V v)
           \<and> median (numeric_stats V) =
               (if even (length V)
                then jdiv (jadd (S ! (length V div 2 - 1)) (S ! (length V div 2))) (Fin 2)
                else S ! (length V div 2))"
    by blast
qed

lemma numeric_stats_finite:
  assumes "R \<noteq> []"
  shows "numeric_stats (map Fin R) =
     \<lparr> mean = Fin (sum_list R / real (length R)),
       median =
         Fin (if even (length R)
              then (sort R ! (length R div 2 - 1) + sort R ! (length R div 2)) / 2
              else sort R ! (length R div 2)),
       std = Fin (sqrt ((\<Sum>v\<leftarrow>R. (v - sum_list R / real (length R))\<^sup>2) / real (length R))),
       min_stat = Fin (Min (set R)),
       max_stat = Fin (Max (set R)) \<rparr>"
proof -
  have S: "sort R \<noteq> []" using assms by (metis length_0_conv length_sort)
  have med: "median_of (sorted_values (map Fin R)) =
      Fin (if even (length R)
           then (sort R ! (length R div 2 - 1) + sort R ! (length R div 2)) / 2
           else sort R ! (length R div 2))"
    using median_of_Fin [OF S] by (simp add: sorted_values_Fin)
  have "0 \<le> (\<Sum>v\<leftarrow>R. (v - sum_list R / real (length R))\<^sup>2) / real (length R)"
    by (intro divide_nonneg_nonneg sum_list_nonneg) auto
  then have std: "Math_sqrt (variance_of (map Fin R)) =
      Fin (sqrt ((\<Sum>v\<leftarrow>R. (v - sum_list R / real (length R))\<^sup>2) / real (length R)))"
    by (simp add: variance_of_Fin [OF assms])
  show ?thesis
    unfolding numeric_stats_def
    by (simp only: med std mean_of_Fin [OF assms] Math_min_Fin [OF assms] Math_max_Fin [OF assms])
qed

lemma col_values_no_NaN: "NaN \<notin> set (col_values s2n data col)"
  by (simp add: col_values_def isNaN_def)

lemma statistics_lookup:
  assumes "col \<in> set (numericColumns row0)"
  shows "\<exists>st. statistics s2n (row0 # rest) = Inr st
           \<and> numericStats st col = Some (numeric_stats (col_values s2n (row0 # rest) col))"
  using assms by (simp add: statistics_def numericStats_lookup)

section \<open>The claims about the statistics\<close>

text \<open>
  C1.  For a numeric column whose filtered value sequence \<open>V\<close> is not empty, the
  statistics hold mean = sum(V)/|V|, the median of \<open>V\<close> sorted ascending (the average of
  the two middle elements when |V| is even, the middle element, at index floor(|V|/2),
  otherwise) and std = the square root of the population variance
  sum((v - mean)^2)/|V|, in the arithmetic of the language; when the values are finite
  these are the formulas over the reals, with the least and the greatest value as min and
  max.  On the table [{a:1,b:"x"},{a:2,b:"y"},{a:3,b:"z"}] column a has mean 2, median 2,
  std sqrt(2/3), min 1, max 3, and column b is absent from numericStats.
\<close>

theorem C1_numeric_stats:
  assumes "col \<in> set (numericColumns row0)"
    and "V = col_values s2n (row0 # rest) col"
    and "V \<noteq> []"
  shows "(\<exists>st ns. statistics s2n (row0 # rest) = Inr st \<and> numericStats st col = Some ns
            \<and> mean ns = jdiv (js_sum V) (Fin (real (length V)))
            \<and> (\<exists>S. ascending S \<and> (\<forall>v. count_list S v = count_list V v)
                  \<and> median ns =
                      (if even (length V)
                       then jdiv (jadd (S ! (length V div 2 - 1)) (S ! (length V div 2))) (Fin 2)
                       else S ! (length V div 2)))
            \<and> std ns =
                Math_sqrt (jdiv (js_sum (map (\<lambda>v. Math_pow (jsub v (mean ns)) 2) V))
                             (Fin (real (length V))))
            \<and> (V = map Fin R \<longrightarrow>
                  mean ns = Fin (sum_list R / real (length R))
                \<and> median ns =
                    Fin (if even (length R)
                         then (sort R ! (length R div 2 - 1) + sort R ! (length R div 2)) / 2
                         else sort R ! (length R div 2))
                \<and> std ns =
                    Fin (sqrt ((\<Sum>v\<leftarrow>R. (v - sum_list R / real (length R))\<^sup>2) / real (length R)))
                \<and> min_stat ns = Fin (Min (set R)) \<and> max_stat ns = Fin (Max (set R))))
       \<and> (\<exists>st. statistics s2n
                  [[(ascii ''a'', Num (Fin 1)), (ascii ''b'', Str (ascii ''x''))],
                   [(ascii ''a'', Num (Fin 2)), (ascii ''b'', Str (ascii ''y''))],
                   [(ascii ''a'', Num (Fin 3)), (ascii ''b'', Str (ascii ''z''))]] = Inr st
            \<and> numericStats st (ascii ''a'') =
                Some \<lparr> mean = Fin 2, median = Fin 2, std = Fin (sqrt (2 / 3)),
                       min_stat = Fin 1, max_stat = Fin 3 \<rparr>
            \<and> numericStats st (ascii ''b'') = None)"
proof (rule conjI)
  have nan: "NaN \<notin> set V" using assms(2) col_values_no_NaN by simp
  from statistics_lookup [OF assms(1), of s2n rest] assms(2)
  obtain st where st: "statistics s2n (row0 # rest) = Inr st"
    "numericStats st col = Some (numeric_stats V)" by auto
  have fin: "V = map Fin R \<longrightarrow>
        mean (numeric_stats V) = Fin (sum_list R / real (length R))
      \<and> median (numeric_stats V) =
          Fin (if even (length R)
               then (sort R ! (length R div 2 - 1) + sort R ! (length R div 2)) / 2
               else sort R ! (length R div 2))
      \<and> std (numeric_stats V) =
          Fin (sqrt ((\<Sum>v\<leftarrow>R. (v - sum_list R / real (length R))\<^sup>2) / real (length R)))
      \<and> min_stat (numeric_stats V) = Fin (Min (set R))
      \<and> max_stat (numeric_stats V) = Fin (Max (set R))"
  proof
    assume V: "V = map Fin R"
    with assms(3) have "R \<noteq> []" by auto
    from numeric_stats_finite [OF this] V show "mean (numeric_stats V) = Fin (sum_list R / real (length R))
      \<and> median (numeric_stats V) =
          Fin (if even (length R)
               then (sort R ! (length R div 2 - 1) + sort R ! (length R div 2)) / 2
               else sort R ! (length R div 2))
      \<and> std (numeric_stats V) =
          Fin (sqrt ((\<Sum>v\<leftarrow>R. (v - sum_list R / real (length R))\<^sup>2) / real (length R)))
      \<and> min_stat (numeric_stats V) = Fin (Min (set R))
      \<and> max_stat (numeric_stats V) = Fin (Max (set R))" by simp
  qed
  from st numeric_stats_general [OF assms(3) nan] fin
  show "\<exists>st ns. statistics s2n (row0 # rest) = Inr st \<and> numericStats st col = Some ns
            \<and> mean ns = jdiv (js_sum V) (Fin (real (length V)))
            \<and> (\<exists>S. ascending S \<and> (\<forall>v. count_list S v = count_list V v)
                  \<and> median ns =
                      (if even (length V)
                       then jdiv (jadd (S ! (length V div 2 - 1)) (S ! (length V div 2))) (Fin 2)
                       else S ! (length V div 2)))
            \<and> std ns =
                Math_sqrt (jdiv (js_sum (map (\<lambda>v. Math_pow (jsub v (mean ns)) 2) V))
                             (Fin (real (length V))))
            \<and> (V = map Fin R \<longrightarrow>
                  mean ns = Fin (sum_list R / real (length R))
                \<and> median ns =
                    Fin (if even (length R)
                         then (sort R ! (length R div 2 - 1) + sort R ! (length R div 2)) / 2
                         else sort R ! (length R div 2))
                \<and> std ns =
                    Fin (sqrt ((\<Sum>v\<leftarrow>R. (v - sum_list R / real (length R))\<^sup>2) / real (length R)))
                \<and> min_stat ns = Fin (Min (set R)) \<and> max_stat ns = Fin (Max (set R)))"
    by blast
next
  let ?a = "ascii ''a''" and ?b = "ascii ''b''"
  let ?row0 = "[(?a, Num (Fin 1)), (?b, Str (ascii ''x''))]"
  let ?rest = "[[(?a, Num (Fin 2)), (?b, Str (ascii ''y''))],
               [(?a, Num (Fin 3)), (?b, Str (ascii ''z''))]]"
  have ab: "?a \<noteq> ?b" by (simp add: ascii_def)
  have cols: "numericColumns ?row0 = [?a]"
    using ab by (simp add: numericColumns_def is_number_def)
  have vals: "col_values s2n (?row0 # ?rest) ?a = map Fin [1, 2, 3]"
    by (simp add: col_values_def Number_def isNaN_def)
  have ns: "numeric_stats (map Fin [1, 2, 3]) =
      \<lparr> mean = Fin 2, median = Fin 2, std = Fin (sqrt (2 / 3)), min_stat = Fin 1, max_stat = Fin 3 \<rparr>"
    by (simp add: numeric_stats_def mean_of_def variance_of_def Math_min_def Math_max_def
        Math_min2_def Math_max2_def isNaN_def sorted_values_def sort_by_def positive_def
        jsub_def median_of_def elem_at_def Math_pow_Fin)
  show "\<exists>st. statistics s2n (?row0 # ?rest) = Inr st
            \<and> numericStats st ?a =
                Some \<lparr> mean = Fin 2, median = Fin 2, std = Fin (sqrt (2 / 3)),
                       min_stat = Fin 1, max_stat = Fin 3 \<rparr>
            \<and> numericStats st ?b = None"
    unfolding statistics_def using cols vals ns ab by (simp add: numericStats_lookup)
qed

theorem C1_numeric_stats_witness:
  "\<exists>st ns. statistics (\<lambda>s. NaN)
       [[(ascii ''x'', Num (Fin 4)), (ascii ''y'', Str (ascii ''p''))],
        [(ascii ''x'', Str (ascii ''n/a''))],
        [(ascii ''x'', Num (Fin 1))],
        [],
        [(ascii ''x'', Num (Fin 3))],
        [(ascii ''x'', Num (Fin 2))]] = Inr st
     \<and> numericStats st (ascii ''x'') = Some ns
     \<and> mean ns = Fin (5 / 2) \<and> median ns = Fin (5 / 2) \<and> std ns = Fin (sqrt (5 / 4))
     \<and> min_stat ns = Fin 1 \<and> max_stat ns = Fin 4"
  using C1_numeric_stats [of "ascii ''x''"
      "[(ascii ''x'', Num (Fin 4)), (ascii ''y'', Str (ascii ''p''))]"
      "[Fin 4, Fin 1, Fin 3, Fin 2]" "\<lambda>s. NaN"
      "[[(ascii ''x'', Str (ascii ''n/a''))], [(ascii ''x'', Num (Fin 1))], [],
        [(ascii ''x'', Num (Fin 3))], [(ascii ''x'', Num (Fin 2))]]" "[4, 1, 3, 2]",
      THEN conjunct1]
  by (simp add: numericColumns_def is_number_def col_values_def Number_def isNaN_def
      power2_eq_square) blast






section \<open>The claims about the dispatch and the failures of a call\<close>

text \<open>
  C5.  A tool name other than generate-thinking, send-email and analyze-data fails with
  the error "Unknown tool: name", and the state after the call is the state before it: no
  file is written and no directory is created.
\<close>

theorem C5_unknown_tool:
  assumes "name \<noteq> ascii ''generate-thinking''" and "name \<noteq> ascii ''send-email''"
    and "name \<noteq> ascii ''analyze-data''"
  shows "call_tool w st \<lparr>tool_name = name, arguments = args\<rparr>
           = (Inl (Error (ascii ''Unknown tool: '' @ name)), st)"
  using assms by (simp add: call_tool_def)

theorem C5_unknown_tool_witness:
  "\<forall>w st. call_tool w st \<lparr>tool_name = ascii ''delete-everything'', arguments = []\<rparr>
           = (Inl (Error (ascii ''Unknown tool: delete-everything'')), st)"
  using C5_unknown_tool [of "ascii ''delete-everything''" _ _ "[]"]
  by (simp add: ascii_def)

lemma analyze_data_no_rows:
  assumes "AnalyzeDataSchema args = Inr a"
    and "load_table w (a_fileName a) (base64 w (a_fileData a)) = Inr []"
  shows "fst (analyze_data w st args)
           = Inl (TypeError (ascii ''Cannot convert undefined or null to object''))"
  using assms by (simp add: analyze_data_def Let_def statistics_def)

lemma empty_csv_args_valid:
  "AnalyzeDataSchema
     [(ascii ''fileData'', JString (ascii ''YQo='')), (ascii ''fileName'', JString (ascii ''empty.csv'')),
      (ascii ''analysisType'', JString (ascii ''basic''))]
   = Inr \<lparr> a_fileData = ascii ''YQo='', a_fileName = ascii ''empty.csv'',
           a_analysisType = ascii ''basic'', a_outputDir = None \<rparr>"
  by (simp add: AnalyzeDataSchema_def z_string_def z_enum_def z_optional_def ascii_def)

text \<open>
  C8.  An analyze-data call whose file parses to a table with no row fails at the
  introspection of the columns (\<^verbatim>\<open>Object.keys(data[0])\<close> throws a \<^verbatim>\<open>TypeError\<close>, the
  parse error of the specification), before any request to the model; the failure is the
  result of this call only: the server goes on with the calls that follow.
\<close>

theorem C8_no_rows:
  assumes "AnalyzeDataSchema args = Inr a"
    and "load_table w (a_fileName a) (base64 w (a_fileData a)) = Inr []"
    and "request = \<lparr>tool_name = ascii ''analyze-data'', arguments = args\<rparr>"
  shows "\<exists>st1. call_tool w st request
              = (Inl (TypeError (ascii ''Cannot convert undefined or null to object'')), st1)
          \<and> prompts st1 = prompts st \<and> mails st1 = mails st
          \<and> serve st ((w, request) # later)
              = (Inl (TypeError (ascii ''Cannot convert undefined or null to object''))
                   # fst (serve st1 later), snd (serve st1 later))"
proof -
  have n: "tool_name request \<noteq> ascii ''generate-thinking''"
    "tool_name request \<noteq> ascii ''send-email''"
    by (simp_all add: assms(3) ascii_def)
  obtain r st1 where c: "call_tool w st request = (r, st1)" by (cases "call_tool w st request")
  then have a: "analyze_data w st args = (r, st1)"
    using n by (simp add: call_tool_def assms(3))
  with analyze_data_no_rows [OF assms(1,2), of st]
  have r: "r = Inl (TypeError (ascii ''Cannot convert undefined or null to object''))" by simp
  have "prompts st1 = prompts st \<and> mails st1 = mails st"
    using a assms(1,2)
    by (auto simp: analyze_data_def Let_def statistics_def ensure_dir_def mkdirSync_def
        writeFileSync_def)
  then show ?thesis using c r by (simp add: split_beta)
qed

theorem C8_no_rows_witness:
  "\<exists>st1. call_tool sample_world empty_state
            \<lparr>tool_name = ascii ''analyze-data'',
             arguments =
               [(ascii ''fileData'', JString (ascii ''YQo='')),
                (ascii ''fileName'', JString (ascii ''empty.csv'')),
                (ascii ''analysisType'', JString (ascii ''basic''))]\<rparr>
          = (Inl (TypeError (ascii ''Cannot convert undefined or null to object'')), st1)
        \<and> prompts st1 = prompts empty_state \<and> mails st1 = mails empty_state
        \<and> serve empty_state
             [(sample_world,
               \<lparr>tool_name = ascii ''analyze-data'',
                arguments =
                  [(ascii ''fileData'', JString (ascii ''YQo='')),
                   (ascii ''fileName'', JString (ascii ''empty.csv'')),
                   (ascii ''analysisType'', JString (ascii ''basic''))]\<rparr>)]
           = (Inl (TypeError (ascii ''Cannot convert undefined or null to object''))
                # fst (serve st1 []), snd (serve st1 []))"
  using C8_no_rows [OF empty_csv_args_valid, of sample_world _ empty_state "[]"]
  by (simp add: load_table_def endsWith_def sample_world_def ascii_def)

section \<open>The claim about the validation\<close>

lemma z_string_bad:
  "(case v of None \<Rightarrow> True | Some x \<Rightarrow> \<not> is_string x) \<Longrightarrow>
     z_string p v = Inl [ZodIssue (invalid_type (ascii ''string'') (getParsedType v)) p]"
  by (cases v; cases "the v") (simp_all add: z_string_def)

lemma z_optional_bad:
  "v = Some x \<Longrightarrow> \<not> is_string x \<Longrightarrow>
     z_optional z_string p v = Inl [ZodIssue (invalid_type (ascii ''string'') (getParsedType v)) p]"
  by (cases x) (simp_all add: z_optional_def z_string_def)

lemma z_enum_bad:
  "(case v of None \<Rightarrow> True | Some x \<Rightarrow> \<not> has_kind (FEnum opts) x) \<Longrightarrow>
     \<exists>c. z_enum opts p v = Inl [ZodIssue c p]"
  by (cases v; cases "the v") (simp_all add: z_enum_def)

lemma image_schema_issues:
  "image_schema q v = Inl js \<Longrightarrow> js \<noteq> [] \<and> (\<forall>j\<in>set js. \<exists>rest. path j = q @ rest)"
  by (cases v; cases "the v")
    (auto simp: image_schema_def z_string_def issues_of_def Let_def
      split: option.splits json.splits sum.splits)

lemma image_schema_not_image:
  "\<not> is_image x \<Longrightarrow> \<exists>js. image_schema q (Some x) = Inl js"
  by (cases x)
    (auto simp: image_schema_def z_string_def issues_of_def Let_def
      split: option.splits json.splits sum.splits)

lemma z_elements_issues:
  "z_elements image_schema p k xs = Inl js \<Longrightarrow>
     js \<noteq> [] \<and> (\<forall>j\<in>set js. \<exists>rest. path j = p @ rest)"
proof (induction xs arbitrary: k js)
  case Nil
  then show ?case by simp
next
  case (Cons x xs)
  show ?case
  proof (cases "image_schema (p @ [Index k]) (Some x)")
    case (Inl a)
    from image_schema_issues [OF Inl]
    have a: "a \<noteq> []" "\<forall>j\<in>set a. \<exists>rest. path j = p @ rest" by auto
    show ?thesis
    proof (cases "z_elements image_schema p (Suc k) xs")
      case (Inl b)
      with Cons.IH [OF Inl] a Cons.prems \<open>image_schema (p @ [Index k]) (Some x) = Inl a\<close>
      show ?thesis by (auto simp: issues_of_def)
    next
      case (Inr b)
      with a Cons.prems \<open>image_schema (p @ [Index k]) (Some x) = Inl a\<close>
      show ?thesis by (auto simp: issues_of_def)
    qed
  next
    case (Inr a)
    show ?thesis
    proof (cases "z_elements image_schema p (Suc k) xs")
      case (Inl b)
      with Cons.IH [OF Inl] Cons.prems Inr show ?thesis by (auto simp: issues_of_def)
    next
      case (Inr b)
      with Cons.prems \<open>image_schema (p @ [Index k]) (Some x) = Inr a\<close>
      show ?thesis by simp
    qed
  qed
qed

lemma z_elements_not_images:
  "\<not> list_all is_image xs \<Longrightarrow> \<exists>js. z_elements image_schema p k xs = Inl js"
proof (induction xs arbitrary: k)
  case Nil
  then show ?case by simp
next
  case (Cons x xs)
  show ?case
  proof (cases "is_image x")
    case True
    with Cons.prems have "\<not> list_all is_image xs" by simp
    from Cons.IH [OF this, of "Suc k"] show ?thesis
      by (auto split: sum.splits)
  next
    case False
    from image_schema_not_image [OF this, of "p @ [Index k]"] show ?thesis
      by (auto split: sum.splits)
  qed
qed

lemma images_bad:
  assumes "v = Some x" and "\<not> has_kind FImages x"
  shows "\<exists>i js. z_default [] (z_array image_schema) p v = Inl (i # js)
           \<and> (\<exists>rest. path i = p @ rest)"
proof (cases x)
  case (JArray xs)
  with assms(2) have "\<not> list_all is_image xs" by simp
  from z_elements_not_images [OF this, of p 0]
  obtain js where js: "z_elements image_schema p 0 xs = Inl js" by blast
  from z_elements_issues [OF js] obtain i js' where "js = i # js'" "\<exists>rest. path i = p @ rest"
    by (cases js) auto
  with js JArray assms(1) show ?thesis by (simp add: z_default_def z_array_def)
qed (use assms in \<open>simp_all add: z_default_def z_array_def\<close>)

lemma GenerateThinkingSchema_issue:
  "i \<in> set (issues_of (z_string [Key (ascii ''prompt'')] (map_of args (ascii ''prompt'')))
          @ issues_of (z_optional z_string [Key (ascii ''outputDir'')] (map_of args (ascii ''outputDir''))))
   \<Longrightarrow> \<exists>issues. GenerateThinkingSchema args = Inl (ZodError issues) \<and> i \<in> set issues"
  unfolding GenerateThinkingSchema_def Let_def
  by (auto simp: issues_of_def split: sum.splits)

lemma SendEmailSchema_issue:
  "i \<in> set (issues_of (z_string [Key (ascii ''to'')] (map_of args (ascii ''to'')))
          @ issues_of (z_string [Key (ascii ''subjectPrompt'')] (map_of args (ascii ''subjectPrompt'')))
          @ issues_of (z_string [Key (ascii ''text'')] (map_of args (ascii ''text'')))
          @ issues_of (z_optional z_string [Key (ascii ''html'')] (map_of args (ascii ''html'')))
          @ issues_of (z_default [] (z_array image_schema) [Key (ascii ''images'')]
                         (map_of args (ascii ''images''))))
   \<Longrightarrow> \<exists>issues. SendEmailSchema args = Inl (ZodError issues) \<and> i \<in> set issues"
  unfolding SendEmailSchema_def Let_def
  by (auto simp: issues_of_def split: sum.splits)

lemma AnalyzeDataSchema_issue:
  "i \<in> set (issues_of (z_string [Key (ascii ''fileData'')] (map_of args (ascii ''fileData'')))
          @ issues_of (z_string [Key (ascii ''fileName'')] (map_of args (ascii ''fileName'')))
          @ issues_of (z_enum [ascii ''basic'', ascii ''detailed'']
                         [Key (ascii ''analysisType'')] (map_of args (ascii ''analysisType'')))
          @ issues_of (z_optional z_string [Key (ascii ''outputDir'')] (map_of args (ascii ''outputDir''))))
   \<Longrightarrow> \<exists>issues. AnalyzeDataSchema args = Inl (ZodError issues) \<and> i \<in> set issues"
  unfolding AnalyzeDataSchema_def Let_def
  by (auto simp: issues_of_def split: sum.splits)

lemma required_string_issue:
  "violated args (f, FString, True) \<Longrightarrow>
     \<exists>i\<in>set (issues_of (z_string [Key f] (map_of args f))). \<exists>rest. path i = Key f # rest"
  using z_string_bad [of "map_of args f" "[Key f]"]
  by (auto simp: violated_def issues_of_def split: option.splits)

lemma optional_string_issue:
  "violated args (f, FString, False) \<Longrightarrow>
     \<exists>i\<in>set (issues_of (z_optional z_string [Key f] (map_of args f))). \<exists>rest. path i = Key f # rest"
  by (auto simp: violated_def issues_of_def z_optional_bad split: option.splits)

lemma enum_issue:
  "violated args (f, FEnum opts, True) \<Longrightarrow>
     \<exists>i\<in>set (issues_of (z_enum opts [Key f] (map_of args f))). \<exists>rest. path i = Key f # rest"
proof -
  assume "violated args (f, FEnum opts, True)"
  then have "case map_of args f of None \<Rightarrow> True | Some x \<Rightarrow> \<not> has_kind (FEnum opts) x"
    by (simp add: violated_def split: option.splits)
  from z_enum_bad [OF this, of "[Key f]"] show ?thesis by (auto simp: issues_of_def)
qed

lemma images_issue:
  "violated args (f, FImages, False) \<Longrightarrow>
     \<exists>i\<in>set (issues_of (z_default [] (z_array image_schema) [Key f] (map_of args f))).
        \<exists>rest. path i = Key f # rest"
proof -
  assume "violated args (f, FImages, False)"
  then obtain x where x: "map_of args f = Some x" "\<not> has_kind FImages x"
    by (auto simp: violated_def split: option.splits)
  from images_bad [OF this, of "[Key f]"] show ?thesis by (auto simp: issues_of_def)
qed

lemma generate_thinking_invalid:
  assumes "fld \<in> set (recognized_fields (ascii ''generate-thinking''))" and "violated args fld"
  shows "\<exists>issues. GenerateThinkingSchema args = Inl (ZodError issues)
              \<and> (\<exists>i\<in>set issues. \<exists>rest. path i = Key (fst fld) # rest)"
proof -
  let ?A = "issues_of (z_string [Key (ascii ''prompt'')] (map_of args (ascii ''prompt'')))"
  let ?B = "issues_of (z_optional z_string [Key (ascii ''outputDir'')] (map_of args (ascii ''outputDir'')))"
  from assms(1) have "fld = (ascii ''prompt'', FString, True)
        \<or> fld = (ascii ''outputDir'', FString, False)"
    by (simp add: recognized_fields_def)
  then have "\<exists>i\<in>set (?A @ ?B). \<exists>rest. path i = Key (fst fld) # rest"
  proof (elim disjE)
    assume f: "fld = (ascii ''prompt'', FString, True)"
    with assms(2) required_string_issue [of args "ascii ''prompt''"] show ?thesis by auto
  next
    assume f: "fld = (ascii ''outputDir'', FString, False)"
    with assms(2) optional_string_issue [of args "ascii ''outputDir''"] show ?thesis by auto
  qed
  then obtain i where i: "i \<in> set (?A @ ?B)" "\<exists>rest. path i = Key (fst fld) # rest" by blast
  from GenerateThinkingSchema_issue [OF i(1)] i(2) show ?thesis by blast
qed

lemma send_email_invalid:
  assumes "fld \<in> set (recognized_fields (ascii ''send-email''))" and "violated args fld"
  shows "\<exists>issues. SendEmailSchema args = Inl (ZodError issues)
              \<and> (\<exists>i\<in>set issues. \<exists>rest. path i = Key (fst fld) # rest)"
proof -
  let ?A = "issues_of (z_string [Key (ascii ''to'')] (map_of args (ascii ''to'')))"
  let ?B = "issues_of (z_string [Key (ascii ''subjectPrompt'')] (map_of args (ascii ''subjectPrompt'')))"
  let ?C = "issues_of (z_string [Key (ascii ''text'')] (map_of args (ascii ''text'')))"
  let ?D = "issues_of (z_optional z_string [Key (ascii ''html'')] (map_of args (ascii ''html'')))"
  let ?E = "issues_of (z_default [] (z_array image_schema) [Key (ascii ''images'')]
                         (map_of args (ascii ''images'')))"
  have ne: "ascii ''send-email'' \<noteq> ascii ''generate-thinking''" by (simp add: ascii_def)
  from assms(1) ne have "fld = (ascii ''to'', FString, True)
        \<or> fld = (ascii ''subjectPrompt'', FString, True)
        \<or> fld = (ascii ''text'', FString, True)
        \<or> fld = (ascii ''html'', FString, False)
        \<or> fld = (ascii ''images'', FImages, False)"
    by (simp add: recognized_fields_def)
  then have "\<exists>i\<in>set (?A @ ?B @ ?C @ ?D @ ?E). \<exists>rest. path i = Key (fst fld) # rest"
  proof (elim disjE)
    assume f: "fld = (ascii ''to'', FString, True)"
    with assms(2) required_string_issue [of args "ascii ''to''"] show ?thesis by auto
  next
    assume f: "fld = (ascii ''subjectPrompt'', FString, True)"
    with assms(2) required_string_issue [of args "ascii ''subjectPrompt''"] show ?thesis by auto
  next
    assume f: "fld = (ascii ''text'', FString, True)"
    with assms(2) required_string_issue [of args "ascii ''text''"] show ?thesis by auto
  next
    assume f: "fld = (ascii ''html'', FString, False)"
    with assms(2) optional_string_issue [of args "ascii ''html''"] show ?thesis by auto
  next
    assume f: "fld = (ascii ''images'', FImages, False)"
    with assms(2) images_issue [of args "ascii ''images''"] show ?thesis by auto
  qed
  then obtain i where i: "i \<in> set (?A @ ?B @ ?C @ ?D @ ?E)"
    "\<exists>rest. path i = Key (fst fld) # rest" by blast
  from SendEmailSchema_issue [OF i(1)] i(2) show ?thesis by blast
qed

lemma analyze_data_invalid:
  assumes "fld \<in> set (recognized_fields (ascii ''analyze-data''))" and "violated args fld"
  shows "\<exists>issues. AnalyzeDataSchema args = Inl (ZodError issues)
              \<and> (\<exists>i\<in>set issues. \<exists>rest. path i = Key (fst fld) # rest)"
proof -
  let ?A = "issues_of (z_string [Key (ascii ''fileData'')] (map_of args (ascii ''fileData'')))"
  let ?B = "issues_of (z_string [Key (ascii ''fileName'')] (map_of args (ascii ''fileName'')))"
  let ?C = "issues_of (z_enum [ascii ''basic'', ascii ''detailed'']
                         [Key (ascii ''analysisType'')] (map_of args (ascii ''analysisType'')))"
  let ?D = "issues_of (z_optional z_string [Key (ascii ''outputDir'')] (map_of args (ascii ''outputDir'')))"
  have ne: "ascii ''analyze-data'' \<noteq> ascii ''generate-thinking''"
    "ascii ''analyze-data'' \<noteq> ascii ''send-email''" by (simp_all add: ascii_def)
  from assms(1) ne have "fld = (ascii ''fileData'', FString, True)
        \<or> fld = (ascii ''fileName'', FString, True)
        \<or> fld = (ascii ''analysisType'', FEnum [ascii ''basic'', ascii ''detailed''], True)
        \<or> fld = (ascii ''outputDir'', FString, False)"
    by (simp add: recognized_fields_def)
  then have "\<exists>i\<in>set (?A @ ?B @ ?C @ ?D). \<exists>rest. path i = Key (fst fld) # rest"
  proof (elim disjE)
    assume f: "fld = (ascii ''fileData'', FString, True)"
    with assms(2) required_string_issue [of args "ascii ''fileData''"] show ?thesis by auto
  next
    assume f: "fld = (ascii ''fileName'', FString, True)"
    with assms(2) required_string_issue [of args "ascii ''fileName''"] show ?thesis by auto
  next
    assume f: "fld = (ascii ''analysisType'', FEnum [ascii ''basic'', ascii ''detailed''], True)"
    with assms(2) enum_issue [of args "ascii ''analysisType''" "[ascii ''basic'', ascii ''detailed'']"]
    show ?thesis by auto
  next
    assume f: "fld = (ascii ''outputDir'', FString, False)"
    with assms(2) optional_string_issue [of args "ascii ''outputDir''"] show ?thesis by auto
  qed
  then obtain i where i: "i \<in> set (?A @ ?B @ ?C @ ?D)"
    "\<exists>rest. path i = Key (fst fld) # rest" by blast
  from AnalyzeDataSchema_issue [OF i(1)] i(2) show ?thesis by blast
qed

text \<open>
  C4.  For each of the three tools and each field the specification recognises for it: when
  the field is required and missing, or present with a value of the wrong type (for
  analysisType, a value outside basic and detailed), the call fails with a
  \<^verbatim>\<open>ZodError\<close> that holds an issue whose path starts with the name of the field; the
  error is the result of the call and the state is unchanged: the handler has not run, and
  no default has taken the place of the value.
\<close>

theorem C4_validation_fails:
  assumes "fld \<in> set (recognized_fields name)" and "violated args fld"
  shows "\<exists>issues. call_tool w st \<lparr>tool_name = name, arguments = args\<rparr>
                     = (Inl (ZodError issues), st)
           \<and> (\<exists>i\<in>set issues. \<exists>rest. path i = Key (fst fld) # rest)"
proof -
  have ne: "ascii ''send-email'' \<noteq> ascii ''generate-thinking''"
    "ascii ''analyze-data'' \<noteq> ascii ''generate-thinking''"
    "ascii ''analyze-data'' \<noteq> ascii ''send-email''" by (simp_all add: ascii_def)
  consider (g) "name = ascii ''generate-thinking''" | (e) "name = ascii ''send-email''"
    | (a) "name = ascii ''analyze-data''"
    using assms(1) by (auto simp: recognized_fields_def split: if_splits)
  then show ?thesis
  proof cases
    case g
    with generate_thinking_invalid [of fld args] assms
    obtain issues where "GenerateThinkingSchema args = Inl (ZodError issues)"
      "\<exists>i\<in>set issues. \<exists>rest. path i = Key (fst fld) # rest" by blast
    then show ?thesis using g by (simp add: call_tool_def generate_thinking_def)
  next
    case e
    with send_email_invalid [of fld args] assms
    obtain issues where "SendEmailSchema args = Inl (ZodError issues)"
      "\<exists>i\<in>set issues. \<exists>rest. path i = Key (fst fld) # rest" by blast
    then show ?thesis using e ne by (simp add: call_tool_def send_email_def)
  next
    case a
    with analyze_data_invalid [of fld args] assms
    obtain issues where "AnalyzeDataSchema args = Inl (ZodError issues)"
      "\<exists>i\<in>set issues. \<exists>rest. path i = Key (fst fld) # rest" by blast
    then show ?thesis using a ne by (simp add: call_tool_def analyze_data_def)
  qed
qed

theorem C4_validation_fails_witness:
  "\<forall>w st.
     call_tool w st
       \<lparr>tool_name = ascii ''analyze-data'',
        arguments =
          [(ascii ''fileData'', JString (ascii ''YQo='')), (ascii ''fileName'', JString (ascii ''d.csv'')),
           (ascii ''analysisType'', JString (ascii ''wrong''))]\<rparr>
       = (Inl (ZodError
                 [ZodIssue
                    (invalid_enum_value [ascii ''basic'', ascii ''detailed''] (ascii ''wrong''))
                    [Key (ascii ''analysisType'')]]), st)"
proof (intro allI)
  fix w st
  let ?args = "[(ascii ''fileData'', JString (ascii ''YQo='')),
        (ascii ''fileName'', JString (ascii ''d.csv'')),
        (ascii ''analysisType'', JString (ascii ''wrong''))]"
  have 1: "(ascii ''analysisType'', FEnum [ascii ''basic'', ascii ''detailed''], True)
      \<in> set (recognized_fields (ascii ''analyze-data''))"
    by (simp add: recognized_fields_def ascii_def)
  have 2: "violated ?args (ascii ''analysisType'', FEnum [ascii ''basic'', ascii ''detailed''], True)"
    by (simp add: violated_def ascii_def)
  have 3: "AnalyzeDataSchema ?args
      = Inl (ZodError
               [ZodIssue
                  (invalid_enum_value [ascii ''basic'', ascii ''detailed''] (ascii ''wrong''))
                  [Key (ascii ''analysisType'')]])"
    by (simp add: AnalyzeDataSchema_def z_string_def z_enum_def z_optional_def issues_of_def
        ascii_def)
  have n: "ascii ''analyze-data'' \<noteq> ascii ''generate-thinking''"
    "ascii ''analyze-data'' \<noteq> ascii ''send-email''" by (simp_all add: ascii_def)
  from C4_validation_fails [OF 1 2, of w st]
  show "call_tool w st \<lparr>tool_name = ascii ''analyze-data'', arguments = ?args\<rparr>
       = (Inl (ZodError
                 [ZodIssue
                    (invalid_enum_value [ascii ''basic'', ascii ''detailed''] (ascii ''wrong''))
                    [Key (ascii ''analysisType'')]]), st)"
    using 3 n by (simp add: call_tool_def analyze_data_def)
qed

section \<open>The claims about send-email\<close>

subsection \<open>The subject\<close>

lemma newline_is_space: "is_space 0x0A"
  by (simp add: is_space_def)

lemma set_trim: "set (trim s) \<subseteq> set s"
proof -
  have "set (dropWhile is_space (rev (dropWhile is_space s))) \<subseteq> set (rev (dropWhile is_space s))"
    by (rule subsetI) (rule set_dropWhileD)
  also have "\<dots> \<subseteq> set s" by (auto dest: set_dropWhileD)
  finally show ?thesis by (simp add: trim_def)
qed

lemma collapse_spaces_elem:
  "c \<in> set (collapse_spaces s) \<Longrightarrow> c = 0x20 \<or> \<not> is_space c"
  by (induction s rule: collapse_spaces.induct) (auto split: if_splits)

lemma cleanup_no_newline: "0x0A \<notin> set (cleanup s)"
proof
  assume "0x0A \<in> set (cleanup s)"
  then have "0x0A \<in> set (collapse_spaces (newlines_to_spaces (unquote (remove_label (remove_markers s)))))"
    using set_trim by (auto simp: cleanup_def)
  from collapse_spaces_elem [OF this] show False by (simp add: newline_is_space)
qed

lemma truncate_subject_length: "length (truncate_subject s) \<le> 70"
  by (simp add: truncate_subject_def ascii_def)

lemma truncate_subject_no_newline:
  "0x0A \<notin> set s \<Longrightarrow> 0x0A \<notin> set (truncate_subject s)"
  by (auto simp: truncate_subject_def ascii_def dest: in_set_takeD)

lemma ask_prompts: "ask w st p = (r, st1) \<Longrightarrow> prompts st1 = prompts st @ [p] \<and> mails st1 = mails st
    \<and> files st1 = files st \<and> dirs st1 = dirs st"
  by (auto simp: ask_def)

lemma generate_subject_result:
  assumes "generate_subject w st p = (Inr s, st1)"
  shows "0x0A \<notin> set s \<and> length s \<le> 70"
proof -
  obtain r sta where a: "ask w st (enhancedPrompt p) = (r, sta)"
    by (cases "ask w st (enhancedPrompt p)")
  show ?thesis
  proof (cases r)
    case (Inl e)
    with assms a show ?thesis by (simp add: generate_subject_def)
  next
    case (Inr r1)
    show ?thesis
    proof (cases "needs_fallback (cleanup r1)")
      case False
      with assms a Inr have "s = cleanup r1" by (simp add: generate_subject_def)
      moreover from False have "length (cleanup r1) \<le> 70" by (simp add: needs_fallback_def)
      ultimately show ?thesis using cleanup_no_newline by simp
    next
      case True
      obtain r' stb where b: "ask w sta (fallbackPrompt p) = (r', stb)"
        by (cases "ask w sta (fallbackPrompt p)")
      with assms a Inr True obtain r2 where "s = truncate_subject (cleanup r2)"
        by (cases r') (auto simp: generate_subject_def)
      then show ?thesis
        using truncate_subject_length truncate_subject_no_newline cleanup_no_newline by simp
    qed
  qed
qed

lemma generate_subject_state:
  assumes "generate_subject w st p = (r, st1)"
  shows "length (prompts st1) \<le> length (prompts st) + 2 \<and> mails st1 = mails st
    \<and> files st1 = files st \<and> dirs st1 = dirs st"
proof -
  obtain ra sta where a: "ask w st (enhancedPrompt p) = (ra, sta)"
    by (cases "ask w st (enhancedPrompt p)")
  obtain rb stb where b: "ask w sta (fallbackPrompt p) = (rb, stb)"
    by (cases "ask w sta (fallbackPrompt p)")
  from ask_prompts [OF a] ask_prompts [OF b] assms a b show ?thesis
    by (cases ra; cases rb) (auto simp: generate_subject_def Let_def split: if_splits)
qed

lemma generate_subject_returns:
  assumes "generateContent w (length (prompts st)) (enhancedPrompt p) = Inr r1"
    and "generateContent w (Suc (length (prompts st))) (fallbackPrompt p) = Inr r2"
  shows "\<exists>s st1. generate_subject w st p = (Inr s, st1)
           \<and> (s = cleanup r1 \<or> s = truncate_subject (cleanup r2))"
  using assms by (simp add: generate_subject_def ask_def Let_def)

subsection \<open>The texts\<close>

lemma js_includes_append: "js_includes (xs @ sub @ ys) sub"
proof (induction xs)
  case Nil
  show ?case
  proof (cases "sub @ ys")
    case Nil
    then show ?thesis by simp
  next
    case (Cons c cs)
    have "take (length sub) (sub @ ys) = sub" by simp
    with Cons show ?thesis by simp
  qed
next
  case (Cons x xs)
  then show ?case by simp
qed

lemma infix_base: "\<exists>pre post. m @ ys = pre @ m @ post"
  by (rule exI [of _ "[]"]) simp

lemma infix_step: "\<exists>pre post. zs = pre @ m @ post \<Longrightarrow> \<exists>pre post. x @ zs = pre @ m @ post"
proof -
  assume "\<exists>pre post. zs = pre @ m @ post"
  then obtain pre post where "zs = pre @ m @ post" by blast
  then have "x @ zs = (x @ pre) @ m @ post" by simp
  then show ?thesis by blast
qed

lemma emailFailedText_message: "js_includes (emailFailedText message) message"
proof -
  have "\<exists>pre post. emailFailedText message = pre @ message @ post"
    unfolding emailFailedText_def by (rule infix_base | rule infix_step)+
  then show ?thesis using js_includes_append by auto
qed

lemma emailFailedText_heading:
  "js_includes (emailFailedText message) (ascii ''Email Sending Failed'')"
proof -
  have "ascii '' Email Sending Failed</h2>\<newline>''
      = [0x20] @ ascii ''Email Sending Failed'' @ ascii ''</h2>\<newline>''"
    by (simp add: ascii_def)
  then have "\<exists>pre post. emailFailedText message = pre @ ascii ''Email Sending Failed'' @ post"
    unfolding emailFailedText_def
    by (simp only: append_assoc) ((rule infix_base | rule infix_step)+)
  then show ?thesis using js_includes_append by auto
qed

lemma htmlTemplate_paragraphs: "js_includes (htmlTemplate subject txt) (paragraphs txt)"
proof -
  have "\<exists>pre post. htmlTemplate subject txt = pre @ paragraphs txt @ post"
    unfolding htmlTemplate_def by (rule infix_base | rule infix_step)+
  then show ?thesis using js_includes_append by auto
qed

lemma htmlTemplate_not_empty: "htmlTemplate subject txt \<noteq> []"
  by (simp add: htmlTemplate_def ascii_def)

subsection \<open>Concrete runs\<close>

lemma sample_email_args_valid:
  "SendEmailSchema sample_email_args
     = Inr \<lparr> e_to = ascii ''you@example.com'', e_subjectPrompt = ascii ''sales'',
             e_text = ascii ''Hello\<newline>World'', e_html = None, e_images = [] \<rparr>"
  by (simp add: SendEmailSchema_def sample_email_args_def z_string_def z_optional_def
      z_default_def ascii_def)

lemma empty_text_args_valid:
  "SendEmailSchema empty_text_args
     = Inr \<lparr> e_to = ascii ''you@example.com'', e_subjectPrompt = ascii ''sales'',
             e_text = [], e_html = None, e_images = [] \<rparr>"
  by (simp add: SendEmailSchema_def empty_text_args_def z_string_def z_optional_def
      z_default_def ascii_def)

lemma cleanup_option: "cleanup (ascii ''Option 1: Sales update'') = ascii ''Option 1: Sales update''"
  by (simp add: cleanup_def ascii_def remove_label_def matches_ci_def toUpper_def is_space_def
      unquote_def is_quote_def newlines_to_spaces_def trim_def)

lemma cleanup_labelled:
  "cleanup (ascii ''Subject: Quarterly sales report for the northern region\<newline>'')
     = ascii ''Quarterly sales report for the northern region''"
  by (simp add: cleanup_def ascii_def remove_label_def matches_ci_def toUpper_def is_space_def
      unquote_def is_quote_def newlines_to_spaces_def trim_def)

lemma cleanup_plain: "cleanup (ascii ''Quarterly sales report'') = ascii ''Quarterly sales report''"
  by (simp add: cleanup_def ascii_def remove_label_def matches_ci_def toUpper_def is_space_def
      unquote_def is_quote_def newlines_to_spaces_def trim_def)

lemma needs_fallback_option: "needs_fallback (ascii ''Option 1: Sales update'')"
  by (simp add: needs_fallback_def ascii_def)

lemma needs_fallback_plain: "\<not> needs_fallback (ascii ''Quarterly sales report'')"
  by (simp add: needs_fallback_def ascii_def)

lemma generate_subject_fallback_world:
  "generate_subject fallback_world empty_state (ascii ''sales'')
     = (Inr (ascii ''Quarterly sales report for the northern region''),
        empty_state\<lparr>prompts := [enhancedPrompt (ascii ''sales''), fallbackPrompt (ascii ''sales'')]\<rparr>)"
  by (simp add: generate_subject_def ask_def fallback_world_def sample_world_def empty_state_def
      cleanup_option cleanup_labelled needs_fallback_option truncate_subject_def)
    (simp add: ascii_def)

lemma generate_subject_sample_world:
  "generate_subject sample_world empty_state (ascii ''sales'')
     = (Inr (ascii ''Quarterly sales report''),
        empty_state\<lparr>prompts := [enhancedPrompt (ascii ''sales'')]\<rparr>)"
  by (simp add: generate_subject_def ask_def sample_world_def empty_state_def
      cleanup_plain needs_fallback_plain)

lemma generate_subject_refusing_world:
  "generate_subject refusing_world empty_state (ascii ''sales'')
     = (Inr (ascii ''Quarterly sales report''),
        empty_state\<lparr>prompts := [enhancedPrompt (ascii ''sales'')]\<rparr>)"
  by (simp add: generate_subject_def ask_def refusing_world_def sample_world_def empty_state_def
      cleanup_plain needs_fallback_plain)

lemma credentials_sample:
  "credentials sample_world = Some (ascii ''me@example.com'', ascii ''secret'')"
  "credentials refusing_world = Some (ascii ''me@example.com'', ascii ''secret'')"
  "credentials fallback_world = Some (ascii ''me@example.com'', ascii ''secret'')"
  by (simp_all add: credentials_def sample_world_def refusing_world_def fallback_world_def
      ascii_def)

lemma send_email_empty_text:
  "send_email sample_world empty_state empty_text_args
     = (Inr [TextContent (emailSentText (ascii ''you@example.com'')
               (ascii ''Quarterly sales report'') (ascii ''id-1''))],
        empty_state
          \<lparr>prompts := [enhancedPrompt (ascii ''sales'')],
           mails :=
             [\<lparr> m_from = ascii ''me@example.com'', m_to = ascii ''you@example.com'',
                m_subject = ascii ''Quarterly sales report'', m_text = [], m_html = [],
                m_attachments = [] \<rparr>]\<rparr>)"
  by (simp add: send_email_def empty_text_args_valid generate_subject_sample_world
      credentials_sample mail_options_def htmlContent_def Let_def)
    (simp add: sample_world_def empty_state_def)

lemma send_email_fallback_world:
  "send_email fallback_world empty_state sample_email_args
     = (Inr [TextContent (emailSentText (ascii ''you@example.com'')
               (ascii ''Quarterly sales report for the northern region'') (ascii ''id-1''))],
        empty_state
          \<lparr>prompts := [enhancedPrompt (ascii ''sales''), fallbackPrompt (ascii ''sales'')],
           mails :=
             [mail_options
                \<lparr> e_to = ascii ''you@example.com'', e_subjectPrompt = ascii ''sales'',
                  e_text = ascii ''Hello\<newline>World'', e_html = None, e_images = [] \<rparr>
                (ascii ''me@example.com'')
                (ascii ''Quarterly sales report for the northern region'')]\<rparr>)"
  by (simp add: send_email_def sample_email_args_valid generate_subject_fallback_world
      credentials_sample Let_def)
    (simp add: fallback_world_def sample_world_def empty_state_def)

subsection \<open>The claims\<close>

text \<open>
  C6.  A send-email call whose arguments validate and whose subject is generated reaches
  the transport only with the credentials set; when the transport then throws, the call
  returns a response, not an error: its text is the failure page, which holds "Email
  Sending Failed" and the message of what was thrown.
\<close>

theorem C6_send_failure:
  assumes "SendEmailSchema args = Inr a"
    and "generate_subject w st (e_subjectPrompt a) = (Inr subject, st1)"
    and "credentials w = Some (emailUser, emailPass)"
    and "sendMail w (mail_options a emailUser subject) = Inl message"
  shows "call_tool w st \<lparr>tool_name = ascii ''send-email'', arguments = args\<rparr>
           = (Inr [TextContent (emailFailedText message)],
              st1\<lparr>mails := mails st1 @ [mail_options a emailUser subject]\<rparr>)
       \<and> js_includes (emailFailedText message) (ascii ''Email Sending Failed'')
       \<and> js_includes (emailFailedText message) message"
proof -
  have "ascii ''send-email'' \<noteq> ascii ''generate-thinking''" by (simp add: ascii_def)
  then have "call_tool w st \<lparr>tool_name = ascii ''send-email'', arguments = args\<rparr>
      = send_email w st args" by (simp add: call_tool_def)
  also have "\<dots> = (Inr [TextContent (emailFailedText message)],
              st1\<lparr>mails := mails st1 @ [mail_options a emailUser subject]\<rparr>)"
    using assms by (simp add: send_email_def Let_def)
  finally show ?thesis using emailFailedText_heading emailFailedText_message by simp
qed

theorem C6_send_failure_witness:
  "call_tool refusing_world empty_state
     \<lparr>tool_name = ascii ''send-email'', arguments = sample_email_args\<rparr>
   = (Inr [TextContent (emailFailedText (ascii ''connect ECONNREFUSED''))],
      empty_state
        \<lparr>prompts := [enhancedPrompt (ascii ''sales'')],
         mails :=
           [mail_options
              \<lparr> e_to = ascii ''you@example.com'', e_subjectPrompt = ascii ''sales'',
                e_text = ascii ''Hello\<newline>World'', e_html = None, e_images = [] \<rparr>
              (ascii ''me@example.com'') (ascii ''Quarterly sales report'')]\<rparr>)
   \<and> js_includes (emailFailedText (ascii ''connect ECONNREFUSED''))
        (ascii ''connect ECONNREFUSED'')"
  using C6_send_failure [OF sample_email_args_valid, of refusing_world empty_state
      "ascii ''Quarterly sales report''" _ "ascii ''me@example.com''" "ascii ''secret''"
      "ascii ''connect ECONNREFUSED''"]
  by (simp add: generate_subject_refusing_world credentials_sample)
    (simp add: refusing_world_def empty_state_def)

text \<open>
  C9 as stated fails: the arguments {to, subjectPrompt, text: ""} validate, have a text
  field and no html field, and the message handed to the transport has an empty html body
  (the handler builds the page only \<^verbatim>\<open>if (!htmlContent && text)\<close>, and the empty string
  is false).
\<close>

theorem C9_counterexample:
  "SendEmailSchema empty_text_args
     = Inr \<lparr> e_to = ascii ''you@example.com'', e_subjectPrompt = ascii ''sales'',
             e_text = [], e_html = None, e_images = [] \<rparr>
   \<and> map m_html
        (mails (snd (call_tool sample_world empty_state
                       \<lparr>tool_name = ascii ''send-email'', arguments = empty_text_args\<rparr>)))
      = [[]]"
proof -
  have "ascii ''send-email'' \<noteq> ascii ''generate-thinking''" by (simp add: ascii_def)
  then have "call_tool sample_world empty_state
      \<lparr>tool_name = ascii ''send-email'', arguments = empty_text_args\<rparr>
      = send_email sample_world empty_state empty_text_args" by (simp add: call_tool_def)
  then show ?thesis by (simp add: send_email_empty_text empty_text_args_valid)
qed

text \<open>
  C9, amended.  For every send-email call that validates with a text that is not empty
  and no html field, and that reaches the transport (the subject is generated and the
  credentials are set), the message handed to the transport has as html body the
  handler's page for the subject and the text: it is not empty and holds the text, one
  paragraph per line.
\<close>

theorem C9_html_body:
  assumes "SendEmailSchema args = Inr a"
    and "e_html a = None" and "e_text a \<noteq> []"
    and "generate_subject w st (e_subjectPrompt a) = (Inr subject, st1)"
    and "credentials w = Some (emailUser, emailPass)"
  shows "\<exists>result st2 options.
           call_tool w st \<lparr>tool_name = ascii ''send-email'', arguments = args\<rparr> = (result, st2)
         \<and> mails st2 = mails st @ [options]
         \<and> m_html options = htmlTemplate subject (e_text a)
         \<and> m_html options \<noteq> []
         \<and> js_includes (m_html options) (paragraphs (e_text a))"
proof -
  have "ascii ''send-email'' \<noteq> ascii ''generate-thinking''" by (simp add: ascii_def)
  then have c: "call_tool w st \<lparr>tool_name = ascii ''send-email'', arguments = args\<rparr>
      = send_email w st args" by (simp add: call_tool_def)
  let ?o = "mail_options a emailUser subject"
  have h: "m_html ?o = htmlTemplate subject (e_text a)"
    using assms(2,3) by (simp add: mail_options_def htmlContent_def htmlTemplate_not_empty)
  have m: "mails st1 = mails st"
    using assms(4) by (auto simp: generate_subject_def ask_def Let_def split: sum.splits if_splits)
  obtain result where "send_email w st args = (result, st1\<lparr>mails := mails st1 @ [?o]\<rparr>)"
    using assms(1,4,5) by (cases "sendMail w ?o") (simp_all add: send_email_def Let_def)
  with c m h htmlTemplate_not_empty htmlTemplate_paragraphs show ?thesis by auto
qed

theorem C9_html_body_witness:
  "\<exists>result st2 options.
     call_tool sample_world empty_state
       \<lparr>tool_name = ascii ''send-email'', arguments = sample_email_args\<rparr> = (result, st2)
     \<and> mails st2 = mails empty_state @ [options]
     \<and> m_html options
         = htmlTemplate (ascii ''Quarterly sales report'') (ascii ''Hello\<newline>World'')
     \<and> m_html options \<noteq> []
     \<and> js_includes (m_html options)
         (ascii ''<p>Hello</p><p>World</p>'')"
proof -
  have p: "paragraphs (ascii ''Hello\<newline>World'') = ascii ''<p>Hello</p><p>World</p>''"
    by (simp add: paragraphs_def ascii_def)
  from C9_html_body [OF sample_email_args_valid, of sample_world empty_state
      "ascii ''Quarterly sales report''" _ "ascii ''me@example.com''" "ascii ''secret''"]
  show ?thesis
    by (simp add: generate_subject_sample_world credentials_sample p) (simp add: ascii_def)
qed

text \<open>
  C10.  A send-email call sends at most two prompts to the model; the message it hands to
  the transport, if any, has a subject without a line feed and of length at most 70; and
  for every pair of responses of the model to the two subject prompts the subject is
  generated, without a line feed and of length at most 70.
\<close>

theorem C10_subject:
  assumes "send_email w st args = (result, st1)"
  shows "length (prompts st1) \<le> length (prompts st) + 2
       \<and> (mails st1 = mails st
           \<or> (\<exists>options. mails st1 = mails st @ [options]
                 \<and> 0x0A \<notin> set (m_subject options) \<and> length (m_subject options) \<le> 70))
       \<and> (generateContent w (length (prompts st)) (enhancedPrompt p) = Inr r1
            \<and> generateContent w (Suc (length (prompts st))) (fallbackPrompt p) = Inr r2
          \<longrightarrow> (\<exists>s st2. generate_subject w st p = (Inr s, st2)
                 \<and> 0x0A \<notin> set s \<and> length s \<le> 70))"
proof (intro conjI impI)
  show "\<exists>s st2. generate_subject w st p = (Inr s, st2) \<and> 0x0A \<notin> set s \<and> length s \<le> 70"
    if "generateContent w (length (prompts st)) (enhancedPrompt p) = Inr r1
            \<and> generateContent w (Suc (length (prompts st))) (fallbackPrompt p) = Inr r2"
    using generate_subject_returns [of w st p r1 r2] that generate_subject_result by blast
next
  show "length (prompts st1) \<le> length (prompts st) + 2"
  proof (cases "SendEmailSchema args")
    case (Inl e)
    with assms show ?thesis by (simp add: send_email_def)
  next
    case (Inr a)
    obtain r sta where g: "generate_subject w st (e_subjectPrompt a) = (r, sta)"
      by (cases "generate_subject w st (e_subjectPrompt a)")
    from generate_subject_state [OF g] assms Inr g show ?thesis
      by (cases r) (auto simp: send_email_def Let_def split: option.splits sum.splits)
  qed
next
  show "mails st1 = mails st
           \<or> (\<exists>options. mails st1 = mails st @ [options]
                 \<and> 0x0A \<notin> set (m_subject options) \<and> length (m_subject options) \<le> 70)"
  proof (cases "SendEmailSchema args")
    case (Inl e)
    with assms show ?thesis by (simp add: send_email_def)
  next
    case (Inr a)
    obtain r sta where g: "generate_subject w st (e_subjectPrompt a) = (r, sta)"
      by (cases "generate_subject w st (e_subjectPrompt a)")
    show ?thesis
    proof (cases r)
      case (Inl e)
      with generate_subject_state [OF g] assms Inr g show ?thesis
        by (simp add: send_email_def)
    next
      case s: (Inr s)
      from generate_subject_result [of w st "e_subjectPrompt a" s sta] g s
      have "0x0A \<notin> set s \<and> length s \<le> 70" by simp
      with generate_subject_state [OF g] assms Inr g s show ?thesis
        by (auto simp: send_email_def Let_def mail_options_def split: option.splits sum.splits)
    qed
  qed
qed

theorem C10_subject_witness:
  "length (prompts (snd (send_email fallback_world empty_state sample_email_args))) = 2
   \<and> map m_subject (mails (snd (send_email fallback_world empty_state sample_email_args)))
       = [ascii ''Quarterly sales report for the northern region'']
   \<and> 0x0A \<notin> set (ascii ''Quarterly sales report for the northern region'')
   \<and> length (ascii ''Quarterly sales report for the northern region'') \<le> 70
   \<and> generateContent fallback_world (length (prompts empty_state))
         (enhancedPrompt (ascii ''sales'')) = Inr (ascii ''Option 1: Sales update'')
   \<and> generateContent fallback_world (Suc (length (prompts empty_state)))
         (fallbackPrompt (ascii ''sales''))
       = Inr (ascii ''Subject: Quarterly sales report for the northern region\<newline>'')
   \<and> (\<exists>s st2. generate_subject fallback_world empty_state (ascii ''sales'') = (Inr s, st2)
          \<and> 0x0A \<notin> set s \<and> length s \<le> 70)"
proof -
  have g: "generateContent fallback_world (length (prompts empty_state))
         (enhancedPrompt (ascii ''sales'')) = Inr (ascii ''Option 1: Sales update'')"
    "generateContent fallback_world (Suc (length (prompts empty_state)))
         (fallbackPrompt (ascii ''sales''))
       = Inr (ascii ''Subject: Quarterly sales report for the northern region\<newline>'')"
    by (simp_all add: fallback_world_def sample_world_def empty_state_def)
  have n: "0x0A \<notin> set (ascii ''Quarterly sales report for the northern region'')"
    "length (ascii ''Quarterly sales report for the northern region'') \<le> 70"
    by (simp_all add: ascii_def)
  from C10_subject [of fallback_world empty_state sample_email_args
      "fst (send_email fallback_world empty_state sample_email_args)"
      "snd (send_email fallback_world empty_state sample_email_args)"
      "ascii ''sales''" "ascii ''Option 1: Sales update''"
      "ascii ''Subject: Quarterly sales report for the northern region\<newline>''"] g
  have "\<exists>s st2. generate_subject fallback_world empty_state (ascii ''sales'') = (Inr s, st2)
          \<and> 0x0A \<notin> set s \<and> length s \<le> 70" by simp
  then show ?thesis using g n by (simp add: send_email_fallback_world mail_options_def)
qed

section \<open>The claim about a failure of the model during analyze-data\<close>











end
